theory Spec2Isabelle
  imports Complex_Main
begin

section \<open>The x402 Solana SDK: data model\<close>

text \<open>
  The development embeds \<^verbatim>\<open>sdk/solana-utils.ts\<close>, \<^verbatim>\<open>sdk/client.ts\<close> and
  \<^verbatim>\<open>shared/x402-types.ts\<close>. JavaScript strings are modelled as \<^typ>\<open>string\<close>; each
  \<^typ>\<open>char\<close> stands for one code unit below 256, so the statements below are about
  strings of such code units. A \<^verbatim>\<open>bigint\<close> is an \<^typ>\<open>int\<close>.
\<close>

datatype Network = Mainnet_beta | Devnet | Testnet

datatype TokenType = SOL | USDC | USDT

datatype PaymentScheme = Exact | Upto

datatype Commitment = Processed | Confirmed | Finalized

record PaymentRequirements =
  scheme :: PaymentScheme
  network :: Network
  amount :: string
  token :: TokenType
  recipient :: string
  memo :: "string option"
  deadline :: "real option"
  requestId :: "string option"

record PaymentProof =
  signature :: string
  proof_network :: Network
  proof_requestId :: "string option"
  timestamp :: nat

text \<open>
  Thrown values. \<open>JsError name message\<close> is an \<^verbatim>\<open>Error\<close> object that does not
  come from the SDK's own classes (a built-in error or one raised by a library);
  \<open>NonError\<close> is a thrown value that is not an \<^verbatim>\<open>Error\<close> instance. The two
  remaining constructors are the SDK's classes of \<^verbatim>\<open>x402-types.ts\<close>;
  \<open>TransactionFailedError\<close> carries its message and the optional \<^verbatim>\<open>details\<close>.
\<close>

datatype js_error =
    JsError string string
  | NonError
  | PaymentRequiredError PaymentRequirements string
  | TransactionFailedError string "js_error option"

fun error_message :: "js_error \<Rightarrow> string" where
  "error_message (JsError n m) = m"
| "error_message NonError = ''Unknown error''"
| "error_message (PaymentRequiredError r m) = m"
| "error_message (TransactionFailedError m d) = m"

section \<open>String and BigInt primitives of the host language\<close>

definition isWhiteSpace :: "char \<Rightarrow> bool" where
  "isWhiteSpace c \<longleftrightarrow> of_char c \<in> {9, 10, 11, 12, 13, 32, 160 :: nat}"

definition trim :: "string \<Rightarrow> string" where
  "trim s = rev (dropWhile isWhiteSpace (rev (dropWhile isWhiteSpace s)))"

definition isDigit :: "char \<Rightarrow> bool" where
  "isDigit c \<longleftrightarrow> c \<in> set ''0123456789''"

definition digitVal :: "char \<Rightarrow> nat" where
  "digitVal c = of_char c - 48"

definition digitChar :: "nat \<Rightarrow> char" where
  "digitChar d = ''0123456789'' ! d"

text \<open>The value of a digit in a radix up to 16, \<open>None\<close> when the character is no such digit.\<close>

definition radixDigit :: "nat \<Rightarrow> char \<Rightarrow> nat option" where
  "radixDigit b c =
     (let n = (of_char c :: nat);
          v = (if 48 \<le> n \<and> n \<le> 57 then Some (n - 48)
               else if 97 \<le> n \<and> n \<le> 102 then Some (n - 87)
               else if 65 \<le> n \<and> n \<le> 70 then Some (n - 55)
               else None)
      in case v of None \<Rightarrow> None | Some d \<Rightarrow> if d < b then Some d else None)"

text \<open>The mathematical value of a digit string, most significant digit first.\<close>

definition decimalValue :: "string \<Rightarrow> nat" where
  "decimalValue s = foldl (\<lambda>a c. 10 * a + digitVal c) 0 s"

fun radixValue :: "nat \<Rightarrow> nat \<Rightarrow> string \<Rightarrow> nat option" where
  "radixValue b a [] = Some a"
| "radixValue b a (c # cs) =
     (case radixDigit b c of None \<Rightarrow> None | Some d \<Rightarrow> radixValue b (b * a + d) cs)"

definition parseDigits :: "nat \<Rightarrow> string \<Rightarrow> nat option" where
  "parseDigits b s = (if s = [] then None else radixValue b 0 s)"

text \<open>
  \<^verbatim>\<open>BigInt(string)\<close>: surrounding white space is dropped, the empty string is zero,
  a decimal literal may carry a sign, a literal with prefix \<^verbatim>\<open>0x\<close>, \<^verbatim>\<open>0o\<close> or
  \<^verbatim>\<open>0b\<close> may not; anything else throws a \<^verbatim>\<open>SyntaxError\<close>.
\<close>

definition bigIntSyntaxError :: "string \<Rightarrow> js_error" where
  "bigIntSyntaxError s = JsError ''SyntaxError'' (''Cannot convert '' @ s @ '' to a BigInt'')"

fun strIntegerLiteral :: "string \<Rightarrow> int option" where
  "strIntegerLiteral [] = Some 0"
| "strIntegerLiteral (c # cs) =
     (if c = CHR ''0'' \<and> cs \<noteq> [] \<and> hd cs \<in> set ''xX'' then map_option int (parseDigits 16 (tl cs))
      else if c = CHR ''0'' \<and> cs \<noteq> [] \<and> hd cs \<in> set ''oO'' then map_option int (parseDigits 8 (tl cs))
      else if c = CHR ''0'' \<and> cs \<noteq> [] \<and> hd cs \<in> set ''bB'' then map_option int (parseDigits 2 (tl cs))
      else if c = CHR ''-'' then map_option (\<lambda>n. - int n) (parseDigits 10 cs)
      else if c = CHR ''+'' then map_option int (parseDigits 10 cs)
      else map_option int (parseDigits 10 (c # cs)))"

definition BigInt :: "string \<Rightarrow> js_error + int" where
  "BigInt s = (case strIntegerLiteral (trim s) of
                 None \<Rightarrow> Inl (bigIntSyntaxError s)
               | Some n \<Rightarrow> Inr n)"

text \<open>\<^verbatim>\<open>bigint.toString()\<close>: decimal digits without leading zeros, a minus sign when negative.\<close>

function natToString :: "nat \<Rightarrow> string" where
  "natToString n = (if n < 10 then [digitChar n] else natToString (n div 10) @ [digitChar (n mod 10)])"
  by pat_completeness auto
termination
  by (relation "measure id") auto

definition bigintToString :: "int \<Rightarrow> string" where
  "bigintToString n = (if n < 0 then CHR ''-'' # natToString (nat (- n)) else natToString (nat n))"

definition padEnd :: "string \<Rightarrow> nat \<Rightarrow> char \<Rightarrow> string" where
  "padEnd s n c = s @ replicate (n - length s) c"

definition padStart :: "string \<Rightarrow> nat \<Rightarrow> char \<Rightarrow> string" where
  "padStart s n c = replicate (n - length s) c @ s"

text \<open>\<^verbatim>\<open>s.slice(start, end)\<close> with the relative indices of the language; \<open>None\<close> is an omitted end.\<close>

definition slice :: "string \<Rightarrow> int \<Rightarrow> int option \<Rightarrow> string" where
  "slice s start end =
     (let len = int (length s);
          from = (if start < 0 then max (len + start) 0 else min start len);
          to = (case end of None \<Rightarrow> len
                | Some e \<Rightarrow> if e < 0 then max (len + e) 0 else min e len)
      in take (nat (to - from)) (drop (nat from) s))"

text \<open>\<^verbatim>\<open>s.split(".")\<close>: the pieces between the separators, never an empty list.\<close>

fun split :: "char \<Rightarrow> string \<Rightarrow> string list" where
  "split sep [] = [[]]"
| "split sep (c # cs) =
     (if c = sep then [] # split sep cs
      else (case split sep cs of p # ps \<Rightarrow> (c # p) # ps | [] \<Rightarrow> [[c]]))"

text \<open>\<^verbatim>\<open>parts[i] || dflt\<close>: a missing or empty piece is replaced.\<close>

definition partOr :: "string list \<Rightarrow> nat \<Rightarrow> string \<Rightarrow> string" where
  "partOr parts i dflt = (if i < length parts \<and> parts ! i \<noteq> [] then parts ! i else dflt)"

text \<open>
  \<^verbatim>\<open>s.replace(/\.?0+$/, "")\<close>: the leftmost position from which the rest of the string
  is an optional dot followed by one or more zeros, all the way to the end, is where
  the string is cut; without such a position the string is unchanged.
\<close>

definition zerosToEnd :: "string \<Rightarrow> bool" where
  "zerosToEnd s \<longleftrightarrow> s \<noteq> [] \<and> list_all (\<lambda>c. c = CHR ''0'') s"

definition matchesTail :: "string \<Rightarrow> bool" where
  "matchesTail s \<longleftrightarrow> zerosToEnd s \<or> (s \<noteq> [] \<and> hd s = CHR ''.'' \<and> zerosToEnd (tl s))"

fun stripTrailingZeros :: "string \<Rightarrow> string" where
  "stripTrailingZeros [] = []"
| "stripTrailingZeros (c # cs) = (if matchesTail (c # cs) then [] else c # stripTrailingZeros cs)"

section \<open>Amount codec (solana-utils.ts)\<close>

fun TOKEN_DECIMALS :: "TokenType \<Rightarrow> nat" where
  "TOKEN_DECIMALS SOL = 9"
| "TOKEN_DECIMALS USDC = 6"
| "TOKEN_DECIMALS USDT = 6"

definition amountToBaseUnits :: "string \<Rightarrow> TokenType \<Rightarrow> js_error + int" where
  "amountToBaseUnits amt tok =
     (let decimals = TOKEN_DECIMALS tok;
          parts = split CHR ''.'' amt;
          whole = partOr parts 0 ''0'';
          fraction = slice (padEnd (partOr parts 1 '''') decimals CHR ''0'') 0 (Some (int decimals))
      in BigInt (whole @ fraction))"

definition baseUnitsToAmount :: "int \<Rightarrow> TokenType \<Rightarrow> string" where
  "baseUnitsToAmount baseUnits tok =
     (let decimals = TOKEN_DECIMALS tok;
          str = padStart (bigintToString baseUnits) (decimals + 1) CHR ''0'';
          whole = (let w = slice str 0 (Some (- int decimals)) in if w = [] then ''0'' else w);
          fraction = slice str (- int decimals) None
      in stripTrailingZeros (whole @ ''.'' @ fraction))"

section \<open>The ledger as the verifier sees it\<close>

text \<open>
  A public key is modelled by its base-58 text: the constructor \<^verbatim>\<open>new PublicKey(s)\<close>
  of the blockchain library accepts exactly the texts that decode to 32 bytes, decoding
  is injective on them and \<^verbatim>\<open>toBase58\<close> is its inverse, so \<^verbatim>\<open>equals\<close> is equality of
  the texts. Which texts the library accepts, how it derives an associated token
  address (for the mint and the owner given, with \<^verbatim>\<open>allowOwnerOffCurve = false\<close>, as
  the SDK always calls it), and for which amounts its two transfer instructions can be
  built, is the library's business and is taken as a parameter.
\<close>

record Web3 =
  publicKeyError :: "string \<Rightarrow> js_error option"
  getAssociatedTokenAddress :: "string \<Rightarrow> string \<Rightarrow> js_error + string"
  systemTransferError :: "int \<Rightarrow> js_error option"
  createTransferInstructionError :: "int \<Rightarrow> js_error option"

definition PublicKey_new :: "Web3 \<Rightarrow> string \<Rightarrow> js_error + string" where
  "PublicKey_new lib s = (case publicKeyError lib s of None \<Rightarrow> Inr s | Some e \<Rightarrow> Inl e)"

record TokenBalance =
  owner :: "string option"
  mint :: string
  uiTokenAmount_amount :: string

record TransactionMeta =
  err :: "string option"
  preBalances :: "nat list"
  postBalances :: "nat list"
  preTokenBalances :: "TokenBalance list option"
  postTokenBalances :: "TokenBalance list option"

record TransactionResponse =
  slot :: nat
  meta :: "TransactionMeta option"
  staticAccountKeys :: "string list"
  addressTableLookups :: nat

text \<open>
  \<^verbatim>\<open>message.getAccountKeys()\<close> without arguments: the library throws when the message
  has address table lookups, which the verifier does not resolve.
\<close>

definition getAccountKeys :: "TransactionResponse \<Rightarrow> js_error + string list" where
  "getAccountKeys tx =
     (if addressTableLookups tx \<noteq> 0
      then Inl (JsError ''Error''
             ''Failed to get account keys because address table lookups were not resolved'')
      else Inr (staticAccountKeys tx))"

text \<open>
  The RPC connection, as far as the verifier uses it: each call either throws or
  answers. \<open>getTransaction\<close> answers \<open>None\<close> for a signature the ledger does not hold
  at the commitment level asked for.
\<close>

record Connection =
  getTransaction :: "string \<Rightarrow> Commitment \<Rightarrow> js_error + TransactionResponse option"
  getSlot :: "Commitment \<Rightarrow> js_error + nat"

fun TOKEN_MINTS :: "Network \<Rightarrow> TokenType \<Rightarrow> string" where
  "TOKEN_MINTS Mainnet_beta SOL = ''So11111111111111111111111111111111111111112''"
| "TOKEN_MINTS Mainnet_beta USDC = ''EPjFWdd5AufqSSqeM2qN1xzybapC8G4wEGGkZwyTDt1v''"
| "TOKEN_MINTS Mainnet_beta USDT = ''Es9vMFrzaCERmJfrF4H2FYD4KCoNkY11McCe8BenwNYB''"
| "TOKEN_MINTS Devnet SOL = ''So11111111111111111111111111111111111111112''"
| "TOKEN_MINTS Devnet USDC = ''4zMMC9srt5Ri5X14GAgXhaHii3GnPAEERYPJgZJDncDU''"
| "TOKEN_MINTS Devnet USDT = ''EJwZgeZrdC8TXTQbQBoL6bfuAnFUUy1PVCMB4DYPzVaS''"
| "TOKEN_MINTS Testnet SOL = ''So11111111111111111111111111111111111111112''"
| "TOKEN_MINTS Testnet USDC = ''CpMah17kQEL2wqyMKt3mZBdTnZbkbfx4nqmQMFDP5vwp''"
| "TOKEN_MINTS Testnet USDT = ''EJwZgeZrdC8TXTQbQBoL6bfuAnFUUy1PVCMB4DYPzVaS''"

section \<open>Payment verifier (verifyPaymentTransaction)\<close>

text \<open>\<^verbatim>\<open>transaction.meta?.err\<close> as a condition: present, and not the empty string.\<close>

definition metaErr :: "TransactionResponse \<Rightarrow> bool" where
  "metaErr tx = (case meta tx of None \<Rightarrow> False
                 | Some m \<Rightarrow> (case err m of None \<Rightarrow> False | Some e \<Rightarrow> e \<noteq> []))"

text \<open>
  The finality gate: entered only at commitment \<^verbatim>\<open>finalized\<close> and with a slot that is
  not zero (\<^verbatim>\<open>&& transaction.slot\<close>); \<open>Inr False\<close> is the early \<^verbatim>\<open>return false\<close>.
\<close>

definition finalityPassed :: "Connection \<Rightarrow> TransactionResponse \<Rightarrow> Commitment \<Rightarrow> js_error + bool" where
  "finalityPassed conn tx commitment =
     (if commitment = Finalized \<and> slot tx \<noteq> 0 then
        (case getSlot conn commitment of
           Inl e \<Rightarrow> Inl e
         | Inr currentSlot \<Rightarrow> if int currentSlot - int (slot tx) < 32 then Inr False else Inr True)
      else Inr True)"

fun findIndex :: "('a \<Rightarrow> bool) \<Rightarrow> 'a list \<Rightarrow> nat option" where
  "findIndex P [] = None"
| "findIndex P (x # xs) = (if P x then Some 0 else map_option Suc (findIndex P xs))"

text \<open>\<^verbatim>\<open>BigInt(transaction.meta?.preBalances[i] || 0)\<close>: a missing entry is zero.\<close>

definition balanceAt :: "TransactionMeta option \<Rightarrow> (TransactionMeta \<Rightarrow> nat list) \<Rightarrow> nat \<Rightarrow> int" where
  "balanceAt m sel i = (case m of None \<Rightarrow> 0
                        | Some mt \<Rightarrow> if i < length (sel mt) then int (sel mt ! i) else 0)"

definition verifySOL :: "TransactionResponse \<Rightarrow> string \<Rightarrow> int \<Rightarrow> js_error + bool" where
  "verifySOL tx rcp expectedAmount =
     (case getAccountKeys tx of
        Inl e \<Rightarrow> Inl e
      | Inr accountKeys \<Rightarrow>
     (case findIndex (\<lambda>key. key = rcp) accountKeys of
        None \<Rightarrow> Inr False
      | Some recipientIndex \<Rightarrow>
          (let preBalance = balanceAt (meta tx) preBalances recipientIndex;
               postBalance = balanceAt (meta tx) postBalances recipientIndex;
               actualAmount = postBalance - preBalance
           in if actualAmount < expectedAmount then Inr False else Inr True)))"

text \<open>\<^verbatim>\<open>transaction.meta?.postTokenBalances || []\<close>.\<close>

definition tokenBalancesOf ::
  "TransactionResponse \<Rightarrow> (TransactionMeta \<Rightarrow> TokenBalance list option) \<Rightarrow> TokenBalance list" where
  "tokenBalancesOf tx sel = (case meta tx of None \<Rightarrow> []
                             | Some m \<Rightarrow> (case sel m of None \<Rightarrow> [] | Some bs \<Rightarrow> bs))"

definition ownedBy :: "string \<Rightarrow> string \<Rightarrow> TokenBalance \<Rightarrow> bool" where
  "ownedBy rcp mintAddress balance \<longleftrightarrow> owner balance = Some rcp \<and> mint balance = mintAddress"

text \<open>\<^verbatim>\<open>BigInt(preBalance?.uiTokenAmount.amount || 0)\<close>.\<close>

definition preTokenAmount :: "TokenBalance option \<Rightarrow> js_error + int" where
  "preTokenAmount preBalance =
     (case preBalance of None \<Rightarrow> Inr 0
      | Some b \<Rightarrow> if uiTokenAmount_amount b = [] then Inr 0 else BigInt (uiTokenAmount_amount b))"

definition verifyToken ::
  "Web3 \<Rightarrow> TransactionResponse \<Rightarrow> PaymentRequirements \<Rightarrow> string \<Rightarrow> int \<Rightarrow> js_error + bool" where
  "verifyToken lib tx requirements rcp expectedAmount =
     (case PublicKey_new lib (TOKEN_MINTS (network requirements) (token requirements)) of
        Inl e \<Rightarrow> Inl e
      | Inr mintAddress \<Rightarrow>
     (case getAssociatedTokenAddress lib mintAddress rcp of
        Inl e \<Rightarrow> Inl e
      | Inr recipientATA \<Rightarrow>
     (let postBalance = find (ownedBy rcp mintAddress) (tokenBalancesOf tx postTokenBalances);
          preBalance = find (ownedBy rcp mintAddress) (tokenBalancesOf tx preTokenBalances)
      in case postBalance of
           None \<Rightarrow> Inr False
         | Some pb \<Rightarrow>
        (case BigInt (uiTokenAmount_amount pb) of
           Inl e \<Rightarrow> Inl e
         | Inr post \<Rightarrow>
        (case preTokenAmount preBalance of
           Inl e \<Rightarrow> Inl e
         | Inr pre \<Rightarrow> if post - pre < expectedAmount then Inr False else Inr True)))))"

text \<open>The body of the \<^verbatim>\<open>try\<close> block; \<open>Inl\<close> is an exception that reaches the \<^verbatim>\<open>catch\<close>.\<close>

definition verifyPaymentBody ::
  "Web3 \<Rightarrow> Connection \<Rightarrow> string \<Rightarrow> PaymentRequirements \<Rightarrow> Commitment \<Rightarrow> js_error + bool" where
  "verifyPaymentBody lib conn txsig requirements commitment =
     (case getTransaction conn txsig commitment of
        Inl e \<Rightarrow> Inl e
      | Inr None \<Rightarrow> Inr False
      | Inr (Some tx) \<Rightarrow>
          if metaErr tx then Inr False
          else (case finalityPassed conn tx commitment of
             Inl e \<Rightarrow> Inl e
           | Inr False \<Rightarrow> Inr False
           | Inr True \<Rightarrow>
          (case PublicKey_new lib (recipient requirements) of
             Inl e \<Rightarrow> Inl e
           | Inr rcp \<Rightarrow>
          (case BigInt (amount requirements) of
             Inl e \<Rightarrow> Inl e
           | Inr expectedAmount \<Rightarrow>
               if token requirements = SOL then verifySOL tx rcp expectedAmount
               else if token requirements = USDC \<or> token requirements = USDT
               then verifyToken lib tx requirements rcp expectedAmount
               else Inr False))))"

definition verifyPaymentTransaction ::
  "Web3 \<Rightarrow> Connection \<Rightarrow> string \<Rightarrow> PaymentRequirements \<Rightarrow> Commitment \<Rightarrow> bool" where
  "verifyPaymentTransaction lib conn txsig requirements commitment =
     (case verifyPaymentBody lib conn txsig requirements commitment of
        Inl e \<Rightarrow> False
      | Inr verdict \<Rightarrow> verdict)"

section \<open>Effects of the client: the trace of external calls\<close>

text \<open>
  The client talks to three outside parties: the HTTP server (through the global
  \<^verbatim>\<open>fetch\<close>), the RPC node (through the connection) and, for a browser wallet, the
  wallet. Every such call is an event; a run carries the list of the events so far and
  appends to it. What the outside answers is given by a world of oracles, each of which
  may look at the events so far, so that the same call can be answered differently the
  second time. The last three fields of the world belong to the libraries: signing and
  serialising a transaction (which may throw) and the message of a schema error.
\<close>

datatype Instruction =
    SystemTransfer string string int
  | CreateAssociatedTokenAccount string string string string
  | TokenTransfer string string string int

record Transaction =
  instructions :: "Instruction list"
  recentBlockhash :: "string option"
  feePayer :: "string option"

datatype json =
    JNull | JBool bool | JNumber real | JString string
  | JArray "json list" | JObject "(string \<times> json) list"

text \<open>
  The options of a request: the method (\<open>httpMethod\<close>), headers and body, and under \<open>others\<close> whatever
  further properties the caller set (mode, credentials, signal and so on).
\<close>

record RequestInit =
  httpMethod :: "string option"
  headers :: "(string \<times> string) list option"
  body :: "string option"
  others :: "(string \<times> string) list"

record Response =
  status :: nat
  jsonBody :: "js_error + json"

datatype Signer = Keypair string | WalletAdapter string

datatype Event =
    HttpFetch string RequestInit
  | RpcGetAccountInfo string
  | RpcGetLatestBlockhash
  | WalletSignTransaction Transaction
  | RpcSendRawTransaction string
  | RpcConfirmTransaction string Commitment
  | PaymentHandlerCall PaymentRequirements

record World =
  httpFetch :: "Event list \<Rightarrow> string \<Rightarrow> RequestInit \<Rightarrow> js_error + Response"
  getAccountInfo :: "Event list \<Rightarrow> string \<Rightarrow> js_error + bool"
  getLatestBlockhash :: "Event list \<Rightarrow> js_error + string"
  walletSignTransaction :: "Event list \<Rightarrow> Transaction \<Rightarrow> js_error + Transaction"
  sendRawTransaction :: "Event list \<Rightarrow> string \<Rightarrow> js_error + string"
  confirmTransactionErr :: "Event list \<Rightarrow> string \<Rightarrow> Commitment \<Rightarrow> js_error + bool"
  dateNow :: "Event list \<Rightarrow> nat"
  signAndSerialize :: "string \<Rightarrow> Transaction \<Rightarrow> js_error + string"
  serialize :: "Transaction \<Rightarrow> js_error + string"
  zodErrorMessage :: "json \<Rightarrow> string"

type_synonym 'a io = "Event list \<Rightarrow> (js_error + 'a) \<times> Event list"

definition io_return :: "'a \<Rightarrow> 'a io" where
  "io_return x = (\<lambda>t. (Inr x, t))"

definition io_throw :: "js_error \<Rightarrow> 'a io" where
  "io_throw e = (\<lambda>t. (Inl e, t))"

definition io_lift :: "js_error + 'a \<Rightarrow> 'a io" where
  "io_lift r = (\<lambda>t. (r, t))"

definition io_call :: "Event \<Rightarrow> (Event list \<Rightarrow> js_error + 'a) \<Rightarrow> 'a io" where
  "io_call ev answer = (\<lambda>t. (answer t, t @ [ev]))"

definition io_bind :: "'a io \<Rightarrow> ('a \<Rightarrow> 'b io) \<Rightarrow> 'b io" where
  "io_bind m f = (\<lambda>t. case m t of (Inl e, t') \<Rightarrow> (Inl e, t') | (Inr x, t') \<Rightarrow> f x t')"

definition io_catch :: "'a io \<Rightarrow> (js_error \<Rightarrow> 'a io) \<Rightarrow> 'a io" where
  "io_catch m h = (\<lambda>t. case m t of (Inl e, t') \<Rightarrow> h e t' | (Inr x, t') \<Rightarrow> (Inr x, t'))"

section \<open>Transaction builder (solana-utils.ts)\<close>

definition MAX_SAFE_INTEGER :: int where
  "MAX_SAFE_INTEGER = 9007199254740991"

fun tokenName :: "TokenType \<Rightarrow> string" where
  "tokenName SOL = ''SOL''"
| "tokenName USDC = ''USDC''"
| "tokenName USDT = ''USDT''"

definition createSOLPaymentTransaction ::
  "Web3 \<Rightarrow> World \<Rightarrow> string \<Rightarrow> PaymentRequirements \<Rightarrow> Transaction io" where
  "createSOLPaymentTransaction lib w payerKey requirements =
     io_bind (io_lift (PublicKey_new lib (recipient requirements))) (\<lambda>rcp.
     io_bind (io_lift (BigInt (amount requirements))) (\<lambda>lamports.
       if lamports > MAX_SAFE_INTEGER
       then io_throw (TransactionFailedError
              (''Amount '' @ bigintToString lamports @
               '' exceeds safe integer range. Use a smaller amount.'') None)
       else
     io_bind (io_lift (case systemTransferError lib lamports of
                         Some e \<Rightarrow> Inl e
                       | None \<Rightarrow> Inr (SystemTransfer payerKey rcp lamports))) (\<lambda>transfer.
     io_bind (io_call RpcGetLatestBlockhash (getLatestBlockhash w)) (\<lambda>blockhash.
       io_return \<lparr> instructions = [transfer],
                   recentBlockhash = Some blockhash, feePayer = Some payerKey \<rparr>))))"

definition createTokenPaymentTransaction ::
  "Web3 \<Rightarrow> World \<Rightarrow> string \<Rightarrow> PaymentRequirements \<Rightarrow> Transaction io" where
  "createTokenPaymentTransaction lib w payerKey requirements =
     io_bind (io_lift (PublicKey_new lib (recipient requirements))) (\<lambda>rcp.
     io_bind (io_lift (PublicKey_new lib
                (TOKEN_MINTS (network requirements) (token requirements)))) (\<lambda>mintAddress.
     io_bind (io_lift (BigInt (amount requirements))) (\<lambda>amt.
     io_bind (io_lift (getAssociatedTokenAddress lib mintAddress payerKey)) (\<lambda>senderATA.
     io_bind (io_lift (getAssociatedTokenAddress lib mintAddress rcp)) (\<lambda>recipientATA.
     io_bind (io_call (RpcGetAccountInfo senderATA) (\<lambda>t. getAccountInfo w t senderATA)) (\<lambda>senderAccount.
       if \<not> senderAccount
       then io_throw (TransactionFailedError
              (''Sender does not have an associated token account for '' @
               tokenName (token requirements) @ ''. '' @
               ''Please create one first at address: '' @ senderATA) None)
       else
     io_bind (io_call (RpcGetAccountInfo recipientATA) (\<lambda>t. getAccountInfo w t recipientATA)) (\<lambda>recipientAccount.
     io_bind (io_lift (case createTransferInstructionError lib amt of
                         Some e \<Rightarrow> Inl e
                       | None \<Rightarrow> Inr (TokenTransfer senderATA recipientATA payerKey amt))) (\<lambda>transfer.
     io_bind (io_call RpcGetLatestBlockhash (getLatestBlockhash w)) (\<lambda>blockhash.
       io_return \<lparr> instructions =
                     (if \<not> recipientAccount
                      then [CreateAssociatedTokenAccount payerKey recipientATA rcp mintAddress]
                      else []) @
                     [transfer],
                   recentBlockhash = Some blockhash, feePayer = Some payerKey \<rparr>)))))))))"

definition createPaymentTransaction ::
  "Web3 \<Rightarrow> World \<Rightarrow> string \<Rightarrow> PaymentRequirements \<Rightarrow> Transaction io" where
  "createPaymentTransaction lib w payerKey requirements =
     (if token requirements = SOL
      then createSOLPaymentTransaction lib w payerKey requirements
      else createTokenPaymentTransaction lib w payerKey requirements)"

definition signAndSendTransaction :: "World \<Rightarrow> Transaction \<Rightarrow> string \<Rightarrow> string io" where
  "signAndSendTransaction w transaction signerKey =
     io_catch
       (io_bind (io_lift (signAndSerialize w signerKey transaction)) (\<lambda>wire.
        io_call (RpcSendRawTransaction wire) (\<lambda>t. sendRawTransaction w t wire)))
       (\<lambda>error. io_throw (TransactionFailedError
          (''Failed to send transaction: '' @ error_message error) (Some error)))"

definition confirmTransaction :: "World \<Rightarrow> string \<Rightarrow> Commitment \<Rightarrow> bool io" where
  "confirmTransaction w txsig commitment =
     io_catch
       (io_bind (io_call (RpcConfirmTransaction txsig commitment)
                   (\<lambda>t. confirmTransactionErr w t txsig commitment)) (\<lambda>hasErr.
        io_return (\<not> hasErr)))
       (\<lambda>error. io_throw (TransactionFailedError
          (''Failed to confirm transaction: '' @ error_message error) (Some error)))"

section \<open>Client orchestrator (client.ts)\<close>

record X402ClientConfig =
  config_network :: Network
  config_signer :: "Signer option"
  config_commitment :: "Commitment option"

record X402FetchOptions =
  autoPayment :: "bool option"
  options_signer :: "Signer option"
  onPaymentRequired :: "(Event list \<Rightarrow> PaymentRequirements \<Rightarrow> js_error + PaymentProof) option"
  fetchOptions :: RequestInit

fun commitmentName :: "Commitment \<Rightarrow> string" where
  "commitmentName Processed = ''processed''"
| "commitmentName Confirmed = ''confirmed''"
| "commitmentName Finalized = ''finalized''"

fun networkName :: "Network \<Rightarrow> string" where
  "networkName Mainnet_beta = ''mainnet-beta''"
| "networkName Devnet = ''devnet''"
| "networkName Testnet = ''testnet''"

fun getPublicKey :: "Signer \<Rightarrow> string" where
  "getPublicKey (Keypair k) = k"
| "getPublicKey (WalletAdapter k) = k"

fun isKeypair :: "Signer \<Rightarrow> bool" where
  "isKeypair (Keypair k) = True"
| "isKeypair (WalletAdapter k) = False"

text \<open>
  \<^verbatim>\<open>PaymentRequirementsSchema.parse\<close>: the body must be an object whose fields have the
  types of the schema; keys the schema does not know are dropped. A JSON object is
  given by its fields, each key once.
\<close>

definition parseEnum :: "(string \<times> 'a) list \<Rightarrow> (string \<times> json) list \<Rightarrow> string \<Rightarrow> 'a option" where
  "parseEnum names fs k = (case map_of fs k of Some (JString s) \<Rightarrow> map_of names s | _ \<Rightarrow> None)"

definition requiredString :: "(string \<times> json) list \<Rightarrow> string \<Rightarrow> string option" where
  "requiredString fs k = (case map_of fs k of Some (JString s) \<Rightarrow> Some s | _ \<Rightarrow> None)"

definition optionalString :: "(string \<times> json) list \<Rightarrow> string \<Rightarrow> string option option" where
  "optionalString fs k = (case map_of fs k of None \<Rightarrow> Some None
                          | Some (JString s) \<Rightarrow> Some (Some s) | _ \<Rightarrow> None)"

definition optionalNumber :: "(string \<times> json) list \<Rightarrow> string \<Rightarrow> real option option" where
  "optionalNumber fs k = (case map_of fs k of None \<Rightarrow> Some None
                          | Some (JNumber x) \<Rightarrow> Some (Some x) | _ \<Rightarrow> None)"

definition PaymentRequirementsSchema_parse :: "json \<Rightarrow> PaymentRequirements option" where
  "PaymentRequirementsSchema_parse j =
     (case j of
        JObject fs \<Rightarrow>
          Option.bind (parseEnum [(''exact'', Exact), (''upto'', Upto)] fs ''scheme'') (\<lambda>sch.
          Option.bind (parseEnum [(''mainnet-beta'', Mainnet_beta), (''devnet'', Devnet),
                                  (''testnet'', Testnet)] fs ''network'') (\<lambda>net.
          Option.bind (requiredString fs ''amount'') (\<lambda>amt.
          Option.bind (parseEnum [(''SOL'', SOL), (''USDC'', USDC), (''USDT'', USDT)] fs ''token'') (\<lambda>tok.
          Option.bind (requiredString fs ''recipient'') (\<lambda>rcp.
          Option.bind (optionalString fs ''memo'') (\<lambda>mem.
          Option.bind (optionalNumber fs ''deadline'') (\<lambda>dl.
          Option.bind (optionalString fs ''requestId'') (\<lambda>rid.
            Some \<lparr> scheme = sch, network = net, amount = amt, token = tok, recipient = rcp,
                   memo = mem, deadline = dl, requestId = rid \<rparr>))))))))
      | _ \<Rightarrow> None)"

definition parsePaymentRequirements :: "World \<Rightarrow> Response \<Rightarrow> PaymentRequirements io" where
  "parsePaymentRequirements w response =
     io_catch
       (io_bind (io_lift (jsonBody response)) (\<lambda>b.
          case PaymentRequirementsSchema_parse b of
            None \<Rightarrow> io_throw (JsError ''ZodError'' (zodErrorMessage w b))
          | Some requirements \<Rightarrow> io_return requirements))
       (\<lambda>error. io_throw (JsError ''Error''
          (''Failed to parse payment requirements: '' @ error_message error)))"

definition executePayment ::
  "X402ClientConfig \<Rightarrow> Web3 \<Rightarrow> World \<Rightarrow> PaymentRequirements \<Rightarrow> Signer \<Rightarrow> PaymentProof io" where
  "executePayment cfg lib w requirements signer =
     io_catch
       (io_bind (createPaymentTransaction lib w (getPublicKey signer) requirements) (\<lambda>transaction.
        io_bind (if isKeypair signer
                 then signAndSendTransaction w transaction (getPublicKey signer)
                 else
                   io_bind (io_call (WalletSignTransaction transaction)
                              (\<lambda>t. walletSignTransaction w t transaction)) (\<lambda>signedTx.
                   io_bind (io_lift (serialize w signedTx)) (\<lambda>wire.
                   io_call (RpcSendRawTransaction wire) (\<lambda>t. sendRawTransaction w t wire)))) (\<lambda>txsig.
        io_bind (confirmTransaction w txsig
                   (case config_commitment cfg of None \<Rightarrow> Confirmed | Some c \<Rightarrow> c)) (\<lambda>confirmed.
          if \<not> confirmed
          then io_throw (TransactionFailedError
                 (''Transaction failed to confirm at '' @
                  commitmentName (case config_commitment cfg of None \<Rightarrow> Confirmed | Some c \<Rightarrow> c) @
                  '' commitment level'') None)
          else (\<lambda>t. (Inr \<lparr> signature = txsig, proof_network = network requirements,
                             proof_requestId = requestId requirements,
                             timestamp = dateNow w t \<rparr>, t))))))
       (\<lambda>error. io_throw (TransactionFailedError
          (''Payment execution failed: '' @ error_message error) (Some error)))"

text \<open>
  The \<^verbatim>\<open>Headers\<close> class: a list of headers whose names are lower-cased and whose values
  lose surrounding white space; \<^verbatim>\<open>get\<close> joins the values of a name, \<^verbatim>\<open>set\<close> replaces
  them all.
\<close>

definition lowerChar :: "char \<Rightarrow> char" where
  "lowerChar c =
     (case map_of (zip ''ABCDEFGHIJKLMNOPQRSTUVWXYZ'' ''abcdefghijklmnopqrstuvwxyz'') c of
        None \<Rightarrow> c | Some l \<Rightarrow> l)"

definition lowerName :: "string \<Rightarrow> string" where
  "lowerName s = map lowerChar s"

definition isHttpSpace :: "char \<Rightarrow> bool" where
  "isHttpSpace c \<longleftrightarrow> of_char c \<in> {9, 10, 13, 32 :: nat}"

definition normalizeValue :: "string \<Rightarrow> string" where
  "normalizeValue v = rev (dropWhile isHttpSpace (rev (dropWhile isHttpSpace v)))"

definition Headers_append :: "(string \<times> string) list \<Rightarrow> string \<Rightarrow> string \<Rightarrow> (string \<times> string) list" where
  "Headers_append hs name v = hs @ [(lowerName name, normalizeValue v)]"

definition Headers_new :: "(string \<times> string) list option \<Rightarrow> (string \<times> string) list" where
  "Headers_new init = (case init of None \<Rightarrow> []
                       | Some pairs \<Rightarrow> foldl (\<lambda>hs nv. Headers_append hs (fst nv) (snd nv)) [] pairs)"

fun replaceHeader :: "string \<Rightarrow> string \<Rightarrow> (string \<times> string) list \<Rightarrow> (string \<times> string) list" where
  "replaceHeader n v [] = [(n, v)]"
| "replaceHeader n v (h # hs) =
     (if fst h = n then (n, v) # filter (\<lambda>h'. fst h' \<noteq> n) hs else h # replaceHeader n v hs)"

definition Headers_set :: "(string \<times> string) list \<Rightarrow> string \<Rightarrow> string \<Rightarrow> (string \<times> string) list" where
  "Headers_set hs name v = replaceHeader (lowerName name) (normalizeValue v) hs"

fun joinValues :: "string list \<Rightarrow> string" where
  "joinValues [] = []"
| "joinValues [v] = v"
| "joinValues (v # vs) = v @ '', '' @ joinValues vs"

definition Headers_get :: "(string \<times> string) list \<Rightarrow> string \<Rightarrow> string option" where
  "Headers_get hs name =
     (let vs = map snd (filter (\<lambda>h. fst h = lowerName name) hs)
      in if vs = [] then None else Some (joinValues vs))"

text \<open>\<^verbatim>\<open>JSON.stringify(proof)\<close>, for a proof with its fields in the order of the schema.\<close>

definition hexDigit :: "nat \<Rightarrow> char" where
  "hexDigit n = ''0123456789abcdef'' ! n"

definition jsonEscape :: "char \<Rightarrow> string" where
  "jsonEscape c =
     (let n = (of_char c :: nat) in
      if n = 34 then [CHR 0x5C, CHR 0x22]
      else if n = 92 then [CHR 0x5C, CHR 0x5C]
      else if n = 8 then [CHR 0x5C, CHR ''b'']
      else if n = 12 then [CHR 0x5C, CHR ''f'']
      else if n = 10 then [CHR 0x5C, CHR ''n'']
      else if n = 13 then [CHR 0x5C, CHR ''r'']
      else if n = 9 then [CHR 0x5C, CHR ''t'']
      else if n < 32 then [CHR 0x5C, CHR ''u'', CHR ''0'', CHR ''0'', hexDigit (n div 16), hexDigit (n mod 16)]
      else [c])"

definition jsonQuote :: "string \<Rightarrow> string" where
  "jsonQuote s = [CHR 0x22] @ concat (map jsonEscape s) @ [CHR 0x22]"

definition JSON_stringify_proof :: "PaymentProof \<Rightarrow> string" where
  "JSON_stringify_proof p =
     ''{'' @ jsonQuote ''signature'' @ '':'' @ jsonQuote (signature p) @
     '','' @ jsonQuote ''network'' @ '':'' @ jsonQuote (networkName (proof_network p)) @
     (case proof_requestId p of None \<Rightarrow> []
      | Some r \<Rightarrow> '','' @ jsonQuote ''requestId'' @ '':'' @ jsonQuote r) @
     '','' @ jsonQuote ''timestamp'' @ '':'' @ natToString (timestamp p) @ ''}''"

text \<open>The request of the retry: \<^verbatim>\<open>{ ...options, headers }\<close>.\<close>

definition retryHeaders :: "RequestInit \<Rightarrow> PaymentProof \<Rightarrow> (string \<times> string) list" where
  "retryHeaders options proof =
     Headers_set
       (Headers_set (Headers_new (headers options)) ''X-Payment'' (JSON_stringify_proof proof))
       ''Content-Type'' ''application/json''"

definition retryInit :: "RequestInit \<Rightarrow> PaymentProof \<Rightarrow> RequestInit" where
  "retryInit options proof = options \<lparr> headers := Some (retryHeaders options proof) \<rparr>"

definition retryWithPayment :: "World \<Rightarrow> string \<Rightarrow> RequestInit \<Rightarrow> PaymentProof \<Rightarrow> Response io" where
  "retryWithPayment w url options proof =
     io_call (HttpFetch url (retryInit options proof))
       (\<lambda>t. httpFetch w t url (retryInit options proof))"

definition X402Client_fetch ::
  "X402ClientConfig \<Rightarrow> Web3 \<Rightarrow> World \<Rightarrow> string \<Rightarrow> X402FetchOptions \<Rightarrow> Response io" where
  "X402Client_fetch cfg lib w url options =
     (let autoPay = (case autoPayment options of None \<Rightarrow> True | Some b \<Rightarrow> b);
          requestSigner = (case options_signer options of Some s \<Rightarrow> Some s
                           | None \<Rightarrow> config_signer cfg)
      in
      io_bind (io_call (HttpFetch url (fetchOptions options))
                 (\<lambda>t. httpFetch w t url (fetchOptions options))) (\<lambda>response.
        if status response = 402 \<and> autoPay then
          (case requestSigner of
             None \<Rightarrow>
               io_bind (parsePaymentRequirements w response) (\<lambda>requirements.
                 io_throw (PaymentRequiredError requirements
                             ''Payment required but no signer provided''))
           | Some sg \<Rightarrow>
               io_bind (parsePaymentRequirements w response) (\<lambda>requirements.
               io_bind (case onPaymentRequired options of
                          Some handler \<Rightarrow>
                            io_call (PaymentHandlerCall requirements) (\<lambda>t. handler t requirements)
                        | None \<Rightarrow> executePayment cfg lib w requirements sg) (\<lambda>paymentProof.
               retryWithPayment w url (fetchOptions options) paymentProof)))
        else io_return response))"

section \<open>Example ledgers\<close>

text \<open>
  One instance of the library parameter and a few ledger states, used to run the code on
  concrete inputs. The instance answers as the library does on the keys of the examples:
  a text is a public key when it is base-58 and decodes to exactly 32 bytes; the
  associated token addresses are the program-derived addresses of the owners below for
  the devnet USDC mint; an owner that is not a point of the curve is refused; the
  transfer instructions take an amount that fits 64 unsigned bits. Pairs of mint and
  owner outside the table are not answered, and no example asks for one.
\<close>

definition base58Alphabet :: string where
  "base58Alphabet = ''123456789ABCDEFGHJKLMNPQRSTUVWXYZabcdefghijkmnopqrstuvwxyz''"

fun base58Value :: "nat \<Rightarrow> string \<Rightarrow> nat option" where
  "base58Value a [] = Some a"
| "base58Value a (c # cs) =
     (case findIndex (\<lambda>x. x = c) base58Alphabet of
        None \<Rightarrow> None
      | Some d \<Rightarrow> base58Value (58 * a + d) cs)"

definition decodesTo32Bytes :: "string \<Rightarrow> nat \<Rightarrow> bool" where
  "decodesTo32Bytes s n =
     (let z = length (takeWhile (\<lambda>c. c = CHR ''1'') s)
      in z \<le> 32 \<and> n < 256 ^ (32 - z) \<and> (z = 32 \<or> 256 ^ (31 - z) \<le> n))"

definition merchant :: string where
  "merchant = ''9WzDXwBbmkg8ZTbNMqUxvQRAyrZzDsGYdLVL9zYtAWWM''"

definition payer :: string where
  "payer = ''AKnL4NNf3DGWZJS6cPknBuEGnVsV4A4m5tgebLHaRSZ9''"

definition stranger :: string where
  "stranger = ''9hSR6S7WPtxmTojgo6GG3k4yDPecgJY292j7xrsUGWBu''"

text \<open>An address that is not a point of the curve, as every program-derived address is.\<close>

definition vault :: string where
  "vault = ''4Nd1mBQtrMJVYVfKf2PJy9NZUZdTAsp7D4xWLs4gDB4T''"

definition systemProgram :: string where
  "systemProgram = ''11111111111111111111111111111111''"

definition tokenProgram :: string where
  "tokenProgram = ''TokenkegQfeZyiNwAJbNbGKPFXCWuBvf9Ss623VQ5DA''"

text \<open>The associated token accounts for the devnet USDC mint, by owner.\<close>

definition usdcAccounts :: "(string \<times> string) list" where
  "usdcAccounts =
     [(''9WzDXwBbmkg8ZTbNMqUxvQRAyrZzDsGYdLVL9zYtAWWM'', ''HwpBSwuyVKJi7d9kqqNexc54MS9i4BEDKDVDLeUVjZm8''),
      (''AKnL4NNf3DGWZJS6cPknBuEGnVsV4A4m5tgebLHaRSZ9'', ''H1AviagU5Y17z77v1F9qZPJ9kCbCsL4ewiZABNfGYoRs''),
      (''9hSR6S7WPtxmTojgo6GG3k4yDPecgJY292j7xrsUGWBu'', ''GzpVTWkyGGfBXRaprnrhV3JtGj3TT52z5w2CrEJsTfjm''),
      (''4Nd1mBQtrMJVYVfKf2PJy9NZUZdTAsp7D4xWLs4gDB4T'', ''624mo8iacoaXLdedsvtqcNN2QCYsiWt7SXzELE6ryQSj'')]"

definition usdcAccountOf :: "string \<Rightarrow> string" where
  "usdcAccountOf ownerAddress = (case map_of usdcAccounts ownerAddress of Some a \<Rightarrow> a | None \<Rightarrow> [])"

definition exampleWeb3 :: Web3 where
  "exampleWeb3 =
     \<lparr> publicKeyError = (\<lambda>s.
         case base58Value 0 s of
           None \<Rightarrow> Some (JsError ''Error'' ''Non-base58 character'')
         | Some n \<Rightarrow> if decodesTo32Bytes s n then None
                      else Some (JsError ''Error'' ''Invalid public key input'')),
       getAssociatedTokenAddress = (\<lambda>mintAddress ownerAddress.
         if ownerAddress = ''4Nd1mBQtrMJVYVfKf2PJy9NZUZdTAsp7D4xWLs4gDB4T''
         then Inl (JsError ''TokenOwnerOffCurveError'' [])
         else if mintAddress = ''4zMMC9srt5Ri5X14GAgXhaHii3GnPAEERYPJgZJDncDU''
         then (case map_of usdcAccounts ownerAddress of
                 Some a \<Rightarrow> Inr a
               | None \<Rightarrow> Inl (JsError ''Error'' ''owner outside the example table''))
         else Inl (JsError ''Error'' ''mint outside the example table'')),
       systemTransferError = (\<lambda>lamports.
         if 0 \<le> lamports \<and> lamports < 2 ^ 64 then None
         else Some (JsError ''RangeError'' ''value out of range for an unsigned 64-bit field'')),
       createTransferInstructionError = (\<lambda>amt.
         if 0 \<le> amt \<and> amt < 2 ^ 64 then None
         else Some (JsError ''RangeError'' ''value out of range for an unsigned 64-bit field'')) \<rparr>"

definition ledgerWith :: "TransactionResponse \<Rightarrow> nat \<Rightarrow> Connection" where
  "ledgerWith tx head =
     \<lparr> getTransaction = (\<lambda>txsig commitment. if txsig = ''paid'' then Inr (Some tx) else Inr None),
       getSlot = (\<lambda>commitment. Inr head) \<rparr>"

definition solRequirements :: PaymentRequirements where
  "solRequirements =
     \<lparr> scheme = Exact, network = Devnet, amount = ''1000000'', token = SOL,
       recipient = merchant, memo = None, deadline = None, requestId = None \<rparr>"

definition usdcRequirements :: PaymentRequirements where
  "usdcRequirements = solRequirements \<lparr> amount := ''500000'', token := USDC \<rparr>"

text \<open>The same requirement with the off-curve address as the recipient.\<close>

definition vaultRequirements :: PaymentRequirements where
  "vaultRequirements = usdcRequirements \<lparr> recipient := vault \<rparr>"

text \<open>A native transfer from \<open>payer\<close> that raises the balance of \<open>receiver\<close> by \<open>lamports\<close>.\<close>

definition solTransfer :: "string \<Rightarrow> nat \<Rightarrow> nat \<Rightarrow> TransactionResponse" where
  "solTransfer receiver lamports atSlot =
     \<lparr> slot = atSlot,
       meta = Some \<lparr> err = None,
                     preBalances = [5000000000, 70000, 1],
                     postBalances = [5000000000 - lamports - 5000, 70000 + lamports, 1],
                     preTokenBalances = None, postTokenBalances = None \<rparr>,
       staticAccountKeys = [payer, receiver, systemProgram],
       addressTableLookups = 0 \<rparr>"

text \<open>
  The same transfer as a version-0 transaction whose message also draws accounts from
  one address lookup table; payer, receiver and system program stay static keys.
\<close>

definition solTransferV0 :: "string \<Rightarrow> nat \<Rightarrow> nat \<Rightarrow> TransactionResponse" where
  "solTransferV0 receiver lamports atSlot = (solTransfer receiver lamports atSlot) \<lparr> addressTableLookups := 1 \<rparr>"

text \<open>
  A native transfer to \<open>receiver\<close> whose message also lists \<open>bystander\<close>, whose balance
  does not change.
\<close>

definition solTransferBeside :: "string \<Rightarrow> string \<Rightarrow> nat \<Rightarrow> TransactionResponse" where
  "solTransferBeside receiver bystander lamports =
     \<lparr> slot = 100,
       meta = Some \<lparr> err = None,
                     preBalances = [5000000000, 3000000, 70000, 1],
                     postBalances = [5000000000 - lamports - 5000, 3000000, 70000 + lamports, 1],
                     preTokenBalances = None, postTokenBalances = None \<rparr>,
       staticAccountKeys = [payer, bystander, receiver, systemProgram],
       addressTableLookups = 0 \<rparr>"

text \<open>
  A token transfer into the associated token account of \<open>holder\<close>: the accounts of the
  message are the payer, the two token accounts and the token program; the wallet
  address of the holder appears only as the owner in the token balances.
\<close>

definition usdcTransfer :: "string \<Rightarrow> string \<Rightarrow> string \<Rightarrow> TransactionResponse" where
  "usdcTransfer holder balanceBefore balanceAfter =
     \<lparr> slot = 250,
       meta = Some \<lparr> err = None,
                     preBalances = [5000000000, 2039280, 2039280, 1],
                     postBalances = [4999995000, 2039280, 2039280, 1],
                     preTokenBalances = Some [\<lparr> owner = Some holder, mint = TOKEN_MINTS Devnet USDC,
                                                 uiTokenAmount_amount = balanceBefore \<rparr>],
                     postTokenBalances = Some [\<lparr> owner = Some holder, mint = TOKEN_MINTS Devnet USDC,
                                                  uiTokenAmount_amount = balanceAfter \<rparr>] \<rparr>,
       staticAccountKeys = [payer, usdcAccountOf payer, usdcAccountOf holder, tokenProgram],
       addressTableLookups = 0 \<rparr>"

text \<open>The same transfer with the balance entries of another mint.\<close>

definition tokenTransferOfMint :: "string \<Rightarrow> string \<Rightarrow> string \<Rightarrow> string \<Rightarrow> TransactionResponse" where
  "tokenTransferOfMint mintAddress holder balanceBefore balanceAfter =
     (usdcTransfer holder balanceBefore balanceAfter)
       \<lparr> meta := Some \<lparr> err = None,
                     preBalances = [5000000000, 2039280, 2039280, 1],
                     postBalances = [4999995000, 2039280, 2039280, 1],
                     preTokenBalances = Some [\<lparr> owner = Some holder, mint = mintAddress,
                                                 uiTokenAmount_amount = balanceBefore \<rparr>],
                     postTokenBalances = Some [\<lparr> owner = Some holder, mint = mintAddress,
                                                  uiTokenAmount_amount = balanceAfter \<rparr>] \<rparr> \<rparr>"

section \<open>Example worlds\<close>

text \<open>
  A server that answers 402 with a challenge for half a USDC until the request carries a
  payment header, and an RPC node that knows the token accounts listed in \<open>existing\<close>.
\<close>

definition challenge :: json where
  "challenge = JObject [(''scheme'', JString ''exact''), (''network'', JString ''devnet''),
                        (''amount'', JString ''500000''), (''token'', JString ''USDC''),
                        (''recipient'', JString ''9WzDXwBbmkg8ZTbNMqUxvQRAyrZzDsGYdLVL9zYtAWWM'')]"

definition exampleWorld :: "string list \<Rightarrow> World" where
  "exampleWorld existing =
     \<lparr> httpFetch = (\<lambda>t url init.
         if Headers_get (Headers_new (headers init)) ''X-Payment'' = None
         then Inr \<lparr> status = 402, jsonBody = Inr challenge \<rparr>
         else Inr \<lparr> status = 200, jsonBody = Inr (JObject [(''data'', JString ''premium'')]) \<rparr>),
       getAccountInfo = (\<lambda>t address. Inr (address \<in> set existing)),
       getLatestBlockhash = (\<lambda>t. Inr ''EkSnNWid2cvwEVnVx9aBqawnmiCNiDgp3gUdkDPTKN1N''),
       walletSignTransaction = (\<lambda>t transaction. Inr transaction),
       sendRawTransaction = (\<lambda>t wire. Inr ''paid''),
       confirmTransactionErr = (\<lambda>t txsig commitment. Inr False),
       dateNow = (\<lambda>t. 1762178400000),
       signAndSerialize = (\<lambda>signerKey transaction. Inr ''signed-wire-bytes''),
       serialize = (\<lambda>transaction. Inr ''signed-wire-bytes''),
       zodErrorMessage = (\<lambda>j. ''Invalid input'') \<rparr>"

definition exampleConfig :: "Signer option \<Rightarrow> X402ClientConfig" where
  "exampleConfig sg = \<lparr> config_network = Devnet, config_signer = sg, config_commitment = None \<rparr>"

definition postRequest :: RequestInit where
  "postRequest =
     \<lparr> httpMethod = Some ''POST'',
       headers = Some [(''Authorization'', ''Bearer abc''), (''Content-Type'', ''text/plain'')],
       body = Some ''hello'', others = [(''credentials'', ''include'')] \<rparr>"

definition exampleOptions :: "bool option \<Rightarrow> X402FetchOptions" where
  "exampleOptions ap =
     \<lparr> autoPayment = ap, options_signer = None, onPaymentRequired = None,
       fetchOptions = postRequest \<rparr>"

definition exampleProof :: PaymentProof where
  "exampleProof = \<lparr> signature = ''paid'', proof_network = Devnet, proof_requestId = None,
                     timestamp = 1762178400000 \<rparr>"

section \<open>Canonical decimal strings (specification)\<close>

text \<open>
  The specification's side of the round trip. A valid decimal string within a precision
  \<open>p\<close> is a whole part of decimal digits without a superfluous leading zero,
  optionally followed by a dot and at most \<open>p\<close> fractional digits; its canonical
  form drops the trailing zeros of the fraction, and the dot with them when nothing is
  left. These definitions follow the specification's words, not the code.
\<close>

definition isZero :: "char \<Rightarrow> bool" where
  "isZero c \<longleftrightarrow> c = CHR ''0''"

definition withoutLeadingZeros :: "string \<Rightarrow> string" where
  "withoutLeadingZeros s = (let r = dropWhile isZero s in if r = [] then ''0'' else r)"

definition withoutTrailingZeros :: "string \<Rightarrow> string" where
  "withoutTrailingZeros s = rev (dropWhile isZero (rev s))"

definition wholePart :: "string \<Rightarrow> string" where
  "wholePart d = takeWhile (\<lambda>c. c \<noteq> CHR ''.'') d"

definition fractionPart :: "string \<Rightarrow> string" where
  "fractionPart d = tl (dropWhile (\<lambda>c. c \<noteq> CHR ''.'') d)"

definition validDecimal :: "string \<Rightarrow> nat \<Rightarrow> bool" where
  "validDecimal d p \<longleftrightarrow>
     wholePart d \<noteq> [] \<and> list_all isDigit (wholePart d) \<and>
     (wholePart d = ''0'' \<or> \<not> isZero (hd (wholePart d))) \<and>
     list_all isDigit (fractionPart d) \<and> length (fractionPart d) \<le> p"

definition canonical :: "string \<Rightarrow> string" where
  "canonical d =
     (let f = withoutTrailingZeros (fractionPart d)
      in if f = [] then wholePart d else wholePart d @ ''.'' @ f)"


section \<open>Properties of the amount codec\<close>

declare natToString.simps [simp del]

lemma isDigit_cases:
  "isDigit c \<longleftrightarrow> c = CHR ''0'' \<or> c = CHR ''1'' \<or> c = CHR ''2'' \<or> c = CHR ''3'' \<or> c = CHR ''4''
     \<or> c = CHR ''5'' \<or> c = CHR ''6'' \<or> c = CHR ''7'' \<or> c = CHR ''8'' \<or> c = CHR ''9''"
  by (auto simp: isDigit_def)

lemma digitChar_digitVal: "isDigit c \<Longrightarrow> digitChar (digitVal c) = c"
  by (auto simp: isDigit_cases digitChar_def digitVal_def)

lemma digitVal_less: "isDigit c \<Longrightarrow> digitVal c < 10"
  by (auto simp: isDigit_cases digitVal_def)

lemma digitVal_zero: "isDigit c \<Longrightarrow> digitVal c = 0 \<longleftrightarrow> c = CHR ''0''"
  by (auto simp: isDigit_cases digitVal_def)

lemma radixDigit_decimal: "isDigit c \<Longrightarrow> radixDigit 10 c = Some (digitVal c)"
  by (auto simp: isDigit_cases digitVal_def radixDigit_def)

lemma isDigit_not_space: "isDigit c \<Longrightarrow> \<not> isWhiteSpace c"
  by (auto simp: isDigit_cases isWhiteSpace_def)

lemma isDigit_not_special:
  "isDigit c \<Longrightarrow> c \<noteq> CHR ''.'' \<and> c \<noteq> CHR ''-'' \<and> c \<noteq> CHR ''+'' \<and> c \<notin> set ''xX'' \<and> c \<notin> set ''oO'' \<and> c \<notin> set ''bB''"
  by (auto simp: isDigit_cases)

lemma radixValue_decimal:
  "list_all isDigit s \<Longrightarrow> radixValue 10 a s = Some (foldl (\<lambda>a c. 10 * a + digitVal c) a s)"
  by (induction s arbitrary: a) (simp_all add: radixDigit_decimal)

lemma parseDigits_decimal:
  "list_all isDigit s \<Longrightarrow> s \<noteq> [] \<Longrightarrow> parseDigits 10 s = Some (decimalValue s)"
  by (simp add: parseDigits_def decimalValue_def radixValue_decimal)

lemma strIntegerLiteral_decimal:
  assumes "list_all isDigit s" "s \<noteq> []"
  shows "strIntegerLiteral s = Some (int (decimalValue s))"
proof -
  obtain c cs where s: "s = c # cs" using assms(2) by (cases s) auto
  have c: "isDigit c" using assms(1) s by simp
  have hd: "cs \<noteq> [] \<Longrightarrow> isDigit (hd cs)" using assms(1) s by (cases cs) auto
  have "cs \<noteq> [] \<Longrightarrow> hd cs \<notin> set ''xX'' \<and> hd cs \<notin> set ''oO'' \<and> hd cs \<notin> set ''bB''"
    using hd isDigit_not_special by blast
  moreover have "c \<noteq> CHR ''-''" "c \<noteq> CHR ''+''" using c isDigit_not_special by blast+
  ultimately show ?thesis
    using parseDigits_decimal[OF assms] by (cases cs) (simp_all add: s)
qed

lemma trim_digits:
  assumes "list_all isDigit s"
  shows "trim s = s"
proof (cases s rule: rev_cases)
  case Nil
  then show ?thesis by (simp add: trim_def)
next
  case (snoc ys y)
  have "dropWhile isWhiteSpace s = s"
    using assms by (cases s) (auto simp: isDigit_not_space)
  moreover have "dropWhile isWhiteSpace (rev s) = rev s"
    using assms snoc by (simp add: isDigit_not_space)
  ultimately show ?thesis by (simp add: trim_def)
qed

lemma BigInt_digits:
  "list_all isDigit s \<Longrightarrow> s \<noteq> [] \<Longrightarrow> BigInt s = Inr (int (decimalValue s))"
  by (simp add: BigInt_def trim_digits strIntegerLiteral_decimal)

lemma foldl_decimal_shift:
  "foldl (\<lambda>a c. 10 * a + digitVal c) a s = a * 10 ^ length s + foldl (\<lambda>a c. 10 * a + digitVal c) 0 s"
proof (induction s arbitrary: a)
  case Nil
  then show ?case by simp
next
  case (Cons c s)
  show ?case
    by (simp add: Cons.IH[of "10 * a + digitVal c"] Cons.IH[of "digitVal c"] add_mult_distrib)
qed

lemma decimalValue_append:
  "decimalValue (xs @ ys) = decimalValue xs * 10 ^ length ys + decimalValue ys"
  by (simp add: decimalValue_def foldl_decimal_shift[of "foldl _ 0 xs"])

lemma decimalValue_snoc: "decimalValue (xs @ [c]) = 10 * decimalValue xs + digitVal c"
  by (simp add: decimalValue_def)

lemma decimalValue_zeros: "decimalValue (replicate k CHR ''0'') = 0"
  by (induction k) (simp_all add: decimalValue_def digitVal_def)

lemma decimalValue_less: "list_all isDigit s \<Longrightarrow> decimalValue s < 10 ^ length s"
proof (induction s rule: rev_induct)
  case Nil
  then show ?case by (simp add: decimalValue_def)
next
  case (snoc c s)
  then have "decimalValue s < 10 ^ length s" "digitVal c < 10"
    by (simp_all add: digitVal_less)
  then show ?case by (simp add: decimalValue_snoc)
qed

lemma decimalValue_take:
  assumes "list_all isDigit f"
  shows "decimalValue (take p f) = decimalValue f div 10 ^ (length f - p)"
proof -
  have "decimalValue f = decimalValue (take p f) * 10 ^ length (drop p f) + decimalValue (drop p f)"
    using decimalValue_append[of "take p f" "drop p f"] by simp
  moreover have "decimalValue (drop p f) < 10 ^ length (drop p f)"
    using assms by (intro decimalValue_less) (simp add: list_all_iff, meson in_set_dropD)
  ultimately show ?thesis by simp
qed

lemma split_no_sep: "sep \<notin> set w \<Longrightarrow> split sep w = [w]"
  by (induction w) auto

lemma split_one_sep: "sep \<notin> set w \<Longrightarrow> split sep (w @ sep # f) = w # split sep f"
  by (induction w) auto

lemma digits_no_dot: "list_all isDigit w \<Longrightarrow> CHR ''.'' \<notin> set w"
  using isDigit_not_special by (auto simp: list_all_iff)

lemma slice_prefix: "slice s 0 (Some (int n)) = take n s"
  by (simp add: slice_def Let_def min_def)

lemma isDigit_zero: "isDigit CHR ''0''"
  by (simp add: isDigit_def)

lemma list_all_take: "list_all P xs \<Longrightarrow> list_all P (take n xs)"
  by (auto simp: list_all_iff dest: in_set_takeD)

lemma list_all_drop: "list_all P xs \<Longrightarrow> list_all P (drop n xs)"
  by (auto simp: list_all_iff dest: in_set_dropD)

lemma list_all_replicate: "P c \<Longrightarrow> list_all P (replicate k c)"
  by (simp add: list_all_iff)

lemma fraction_digits:
  "list_all isDigit f \<Longrightarrow> list_all isDigit (take p (padEnd f p CHR ''0''))"
  unfolding padEnd_def
  by (intro list_all_take) (simp add: list_all_replicate isDigit_zero)

lemma fraction_value:
  assumes "list_all isDigit f"
  shows "decimalValue (take p (padEnd f p CHR ''0'')) =
           (if length f \<le> p then decimalValue f * 10 ^ (p - length f)
            else decimalValue f div 10 ^ (length f - p))"
proof (cases "length f \<le> p")
  case True
  then show ?thesis
    by (simp add: padEnd_def decimalValue_append decimalValue_zeros)
next
  case False
  then show ?thesis
    using decimalValue_take[OF assms, of p] by (simp add: padEnd_def)
qed

lemma amountToBaseUnits_parts:
  assumes "list_all isDigit w" "list_all isDigit f" "split CHR ''.'' d = w # f # rest \<or> (split CHR ''.'' d = [w] \<and> f = [])"
  shows "amountToBaseUnits d tok =
     Inr (int (decimalValue w * 10 ^ TOKEN_DECIMALS tok +
               decimalValue (take (TOKEN_DECIMALS tok) (padEnd f (TOKEN_DECIMALS tok) CHR ''0''))))"
proof -
  let ?p = "TOKEN_DECIMALS tok"
  let ?w = "if w = [] then ''0'' else w"
  let ?fr = "take ?p (padEnd f ?p CHR ''0'')"
  have p: "0 < ?p" by (cases tok) simp_all
  have parts: "partOr (split CHR ''.'' d) 0 ''0'' = ?w" "partOr (split CHR ''.'' d) 1 '''' = f"
    using assms(3) by (auto simp: partOr_def)
  have len: "length ?fr = ?p" by (simp add: padEnd_def)
  have dw: "list_all isDigit ?w" using assms(1) by (simp add: isDigit_zero)
  have "list_all isDigit (?w @ ?fr)" "?w @ ?fr \<noteq> []"
    using dw fraction_digits[OF assms(2)] by auto
  then have "BigInt (?w @ ?fr) = Inr (int (decimalValue (?w @ ?fr)))"
    by (rule BigInt_digits)
  moreover have "decimalValue ?w = decimalValue w"
    by (simp add: decimalValue_def digitVal_def)
  ultimately show ?thesis
    unfolding amountToBaseUnits_def Let_def parts slice_prefix
    by (simp only: decimalValue_append len)
qed


text \<open>
  Claim C8, as the code has it. An amount \<open>w.f\<close> of decimal digits is never refused:
  a fraction not longer than the asset's precision is padded with zeros (the value is
  exact), a longer fraction is cut after the precision's digits (the value is rounded
  towards zero, never up), and no error is raised in either case.
\<close>

theorem amountToBaseUnits_pads_or_truncates:
  assumes "w \<noteq> []" "list_all isDigit w" "list_all isDigit f"
  shows "amountToBaseUnits (w @ ''.'' @ f) tok =
     Inr (int (decimalValue w * 10 ^ TOKEN_DECIMALS tok +
               (if length f \<le> TOKEN_DECIMALS tok
                then decimalValue f * 10 ^ (TOKEN_DECIMALS tok - length f)
                else decimalValue f div 10 ^ (length f - TOKEN_DECIMALS tok))))"
proof -
  have "split CHR ''.'' (w @ ''.'' @ f) = [w, f]"
    using digits_no_dot[OF assms(2)] digits_no_dot[OF assms(3)]
    by (simp add: split_one_sep split_no_sep)
  then show ?thesis
    using amountToBaseUnits_parts[OF assms(2,3), of "w @ ''.'' @ f" "[]" tok]
    by (simp add: fraction_value[OF assms(3)])
qed

theorem amountToBaseUnits_pads_or_truncates_witness:
  "amountToBaseUnits ''1.0000000019'' SOL = Inr 1000000001 \<and> amountToBaseUnits ''1.5'' USDC = Inr 1500000"
  using amountToBaseUnits_pads_or_truncates[of "''1''" "''0000000019''" SOL]
        amountToBaseUnits_pads_or_truncates[of "''1''" "''5''" USDC]
  by (simp add: isDigit_def decimalValue_def digitVal_def)

text \<open>
  The claim as stated fails: ten fractional digits of the nine-decimal native asset are
  accepted, and the last digit is dropped without an error.
\<close>

theorem amountToBaseUnits_excess_digits_counterexample:
  "amountToBaseUnits ''1.0000000001'' SOL = Inr 1000000000"
  by (simp add: amountToBaseUnits_def partOr_def padEnd_def slice_def BigInt_def trim_def
        isWhiteSpace_def parseDigits_def radixDigit_def)

section \<open>The round trip of the amount codec\<close>

lemma decimalValue_zero_iff:
  "list_all isDigit s \<Longrightarrow> decimalValue s = 0 \<longleftrightarrow> list_all isZero s"
proof (induction s rule: rev_induct)
  case Nil
  then show ?case by (simp add: decimalValue_def)
next
  case (snoc c s)
  then show ?case
    by (simp add: decimalValue_snoc digitVal_zero isZero_def)
qed

lemma natToString_small: "n < 10 \<Longrightarrow> natToString n = [digitChar n]"
  by (subst natToString.simps) simp

lemma natToString_large:
  "10 \<le> n \<Longrightarrow> natToString n = natToString (n div 10) @ [digitChar (n mod 10)]"
  by (subst natToString.simps) simp

lemma withoutLeadingZeros_nonzero:
  "dropWhile isZero s \<noteq> [] \<Longrightarrow> withoutLeadingZeros s = dropWhile isZero s"
  by (auto simp: withoutLeadingZeros_def)

lemma natToString_decimalValue:
  "list_all isDigit s \<Longrightarrow> natToString (decimalValue s) = withoutLeadingZeros s"
proof (induction s rule: rev_induct)
  case Nil
  show ?case
    by (simp add: decimalValue_def natToString_small withoutLeadingZeros_def digitChar_def)
next
  case (snoc c s)
  then have c: "isDigit c" and s: "list_all isDigit s" by simp_all
  have IH: "natToString (decimalValue s) = withoutLeadingZeros s" using snoc by simp
  have d: "digitVal c < 10" using c by (rule digitVal_less)
  show ?case
  proof (cases "decimalValue s = 0")
    case True
    then have z: "list_all isZero s" using decimalValue_zero_iff[OF s] by simp
    then have "dropWhile isZero (s @ [c]) = dropWhile isZero [c]"
      by (simp add: list_all_iff)
    moreover have "natToString (decimalValue (s @ [c])) = [c]"
      using True d c by (simp add: decimalValue_snoc natToString_small digitChar_digitVal)
    ultimately show ?thesis
      by (auto simp: withoutLeadingZeros_def isZero_def)
  next
    case False
    then have nz: "\<not> list_all isZero s" using decimalValue_zero_iff[OF s] by simp
    then obtain x where x: "x \<in> set s" "\<not> isZero x" by (auto simp: list_all_iff)
    then have dw: "dropWhile isZero (s @ [c]) = dropWhile isZero s @ [c]"
      by (simp add: dropWhile_append1)
    have ne: "dropWhile isZero s \<noteq> []" using x by (auto simp: dropWhile_eq_Nil_conv)
    have "10 \<le> decimalValue (s @ [c])" using False by (simp add: decimalValue_snoc)
    then have "natToString (decimalValue (s @ [c])) =
                 natToString (decimalValue (s @ [c]) div 10) @ [digitChar (decimalValue (s @ [c]) mod 10)]"
      by (rule natToString_large)
    also have "decimalValue (s @ [c]) div 10 = decimalValue s"
      using d by (simp add: decimalValue_snoc)
    also have "decimalValue (s @ [c]) mod 10 = digitVal c"
      using d by (simp add: decimalValue_snoc)
    finally have "natToString (decimalValue (s @ [c])) = natToString (decimalValue s) @ [c]"
      using c by (simp add: digitChar_digitVal)
    moreover have "withoutLeadingZeros s = dropWhile isZero s"
      using ne by (rule withoutLeadingZeros_nonzero)
    moreover have "withoutLeadingZeros (s @ [c]) = dropWhile isZero s @ [c]"
      using withoutLeadingZeros_nonzero[of "s @ [c]"] ne unfolding dw by blast
    ultimately show ?thesis
      using IH by simp
  qed
qed

lemma takeWhile_zeros: "takeWhile isZero s = replicate (length (takeWhile isZero s)) CHR ''0''"
  by (induction s) (auto simp: isZero_def)

lemma pad_back:
  assumes "length fz = p" "0 < p"
  shows "padStart (withoutLeadingZeros fz) (Suc p) CHR ''0'' = CHR ''0'' # fz"
proof (cases "dropWhile isZero fz = []")
  case True
  then have "takeWhile isZero fz = fz"
    by (metis append_Nil2 takeWhile_dropWhile_id)
  then have "fz = replicate p CHR ''0''"
    using assms(1) by (metis takeWhile_zeros)
  then show ?thesis
    using True assms(2) by (simp add: withoutLeadingZeros_def padStart_def replicate_append_same)
next
  case False
  let ?t = "takeWhile isZero fz" and ?r = "dropWhile isZero fz"
  have len: "length ?t + length ?r = p"
    using assms(1) by (metis length_append takeWhile_dropWhile_id)
  then have "Suc p - length ?r = Suc (length ?t)" by simp
  then have "padStart ?r (Suc p) CHR ''0'' = CHR ''0'' # (replicate (length ?t) CHR ''0'' @ ?r)"
    by (simp add: padStart_def)
  also have "replicate (length ?t) CHR ''0'' @ ?r = fz"
    using takeWhile_zeros[of fz] by (metis takeWhile_dropWhile_id)
  finally show ?thesis unfolding withoutLeadingZeros_nonzero[OF False] .
qed

lemma padded_digits:
  assumes "w \<noteq> []" "length fz = p" "0 < p"
  shows "padStart (withoutLeadingZeros (w @ fz)) (Suc p) CHR ''0'' = withoutLeadingZeros w @ fz"
proof (cases "dropWhile isZero w = []")
  case True
  then have "\<forall>x\<in>set w. isZero x" by (simp add: dropWhile_eq_Nil_conv)
  then have "dropWhile isZero (w @ fz) = dropWhile isZero fz" by simp
  then have "withoutLeadingZeros (w @ fz) = withoutLeadingZeros fz"
    by (simp add: withoutLeadingZeros_def)
  then show ?thesis
    using True pad_back[OF assms(2,3)] by (simp add: withoutLeadingZeros_def)
next
  case False
  then obtain x where "x \<in> set w" "\<not> isZero x" by (auto simp: dropWhile_eq_Nil_conv)
  then have dw: "dropWhile isZero (w @ fz) = dropWhile isZero w @ fz"
    by (simp add: dropWhile_append1)
  have w: "withoutLeadingZeros w = dropWhile isZero w"
    using False by (rule withoutLeadingZeros_nonzero)
  have "dropWhile isZero (w @ fz) \<noteq> []" unfolding dw using False by blast
  then have wf: "withoutLeadingZeros (w @ fz) = dropWhile isZero w @ fz"
    unfolding dw[symmetric] by (rule withoutLeadingZeros_nonzero)
  have "0 < length (dropWhile isZero w)" using False unfolding length_greater_0_conv .
  moreover have "length (dropWhile isZero w @ fz) = length (dropWhile isZero w) + p"
    using assms(2) by (simp only: length_append)
  ultimately have "Suc p - length (dropWhile isZero w @ fz) = 0" by arith
  then show ?thesis
    unfolding w wf padStart_def by simp
qed

lemma slice_front: "b \<noteq> [] \<Longrightarrow> slice (a @ b) 0 (Some (- int (length b))) = a"
  by (simp add: slice_def Let_def)

lemma slice_back: "b \<noteq> [] \<Longrightarrow> slice (a @ b) (- int (length b)) None = b"
  by (simp add: slice_def Let_def)

lemma zerosToEnd_iff: "zerosToEnd s \<longleftrightarrow> s \<noteq> [] \<and> list_all isZero s"
  by (simp add: zerosToEnd_def isZero_def[abs_def])

lemma stripTrailingZeros_digits:
  "CHR ''.'' \<notin> set f \<Longrightarrow> stripTrailingZeros f = withoutTrailingZeros f"
proof (induction f)
  case Nil
  then show ?case by (simp add: withoutTrailingZeros_def)
next
  case (Cons c f)
  then have IH: "stripTrailingZeros f = withoutTrailingZeros f" and c: "c \<noteq> CHR ''.''" by auto
  have m: "matchesTail (c # f) \<longleftrightarrow> list_all isZero (c # f)"
    using c by (auto simp: matchesTail_def zerosToEnd_iff)
  show ?case
  proof (cases "list_all isZero (c # f)")
    case True
    then have "\<forall>x\<in>set (rev (c # f)). isZero x" by (simp add: list_all_iff)
    then have "dropWhile isZero (rev (c # f)) = []" by (simp only: dropWhile_eq_Nil_conv)
    then show ?thesis using True m by (simp add: withoutTrailingZeros_def)
  next
    case False
    have "withoutTrailingZeros (c # f) = c # withoutTrailingZeros f"
    proof (cases "list_all isZero f")
      case True
      then have "\<forall>x\<in>set (rev f). isZero x" by (simp add: list_all_iff)
      then have "dropWhile isZero (rev f @ [c]) = dropWhile isZero [c]" "dropWhile isZero (rev f) = []"
        using dropWhile_append2[of "rev f" isZero "[c]"] by auto
      moreover have "\<not> isZero c" using \<open>\<not> list_all isZero (c # f)\<close> True by simp
      ultimately show ?thesis by (simp add: withoutTrailingZeros_def)
    next
      case False
      then obtain x where "x \<in> set (rev f)" "\<not> isZero x" by (auto simp: list_all_iff)
      then have "dropWhile isZero (rev f @ [c]) = dropWhile isZero (rev f) @ [c]"
        by (simp add: dropWhile_append1)
      then show ?thesis by (simp add: withoutTrailingZeros_def)
    qed
    then show ?thesis using False m IH by simp
  qed
qed

lemma stripTrailingZeros_decimal:
  assumes "CHR ''.'' \<notin> set w" "CHR ''.'' \<notin> set f" "f \<noteq> []"
  shows "stripTrailingZeros (w @ ''.'' @ f) =
           (if withoutTrailingZeros f = [] then w else w @ ''.'' @ withoutTrailingZeros f)"
  using assms(1)
proof (induction w)
  case Nil
  have wt: "withoutTrailingZeros f = [] \<longleftrightarrow> list_all isZero f"
    by (simp add: withoutTrailingZeros_def list_all_iff)
  have "matchesTail (''.'' @ f) \<longleftrightarrow> list_all isZero f"
    using assms(3) by (auto simp: matchesTail_def zerosToEnd_iff isZero_def)
  then show ?case
    using wt stripTrailingZeros_digits[OF assms(2)] by simp
next
  case (Cons c w)
  then have c: "c \<noteq> CHR ''.''" and w: "CHR ''.'' \<notin> set w" by auto
  have "\<not> list_all isZero (c # w @ ''.'' @ f)" by (simp add: isZero_def)
  then have "\<not> matchesTail ((c # w) @ ''.'' @ f)"
    using c by (simp add: matchesTail_def zerosToEnd_iff)
  then show ?case using Cons.IH[OF w] by simp
qed

lemma withoutTrailingZeros_padEnd:
  "withoutTrailingZeros (padEnd f p CHR ''0'') = withoutTrailingZeros f"
proof -
  have "dropWhile isZero (replicate (p - length f) CHR ''0'' @ rev f) = dropWhile isZero (rev f)"
    by (rule dropWhile_append2) (simp add: isZero_def)
  then show ?thesis by (simp add: withoutTrailingZeros_def padEnd_def)
qed

lemma withoutLeadingZeros_valid:
  assumes "w \<noteq> []" "w = ''0'' \<or> \<not> isZero (hd w)"
  shows "withoutLeadingZeros w = w"
  using assms by (cases w) (auto simp: withoutLeadingZeros_def isZero_def)

lemma decimal_parts:
  assumes "list_all isDigit (fractionPart d)"
  shows "split CHR ''.'' d = [wholePart d, fractionPart d] \<or>
         (split CHR ''.'' d = [wholePart d] \<and> fractionPart d = [])"
proof (cases "dropWhile (\<lambda>c. c \<noteq> CHR ''.'') d")
  case Nil
  then have nd: "CHR ''.'' \<notin> set d" by auto
  then have "split CHR ''.'' d = [d]" by (rule split_no_sep)
  moreover have "wholePart d = d" using nd by (auto simp: wholePart_def takeWhile_eq_all_conv)
  ultimately have "split CHR ''.'' d = [d]" "wholePart d = d" by simp_all
  moreover have "fractionPart d = []" unfolding fractionPart_def Nil by simp
  ultimately show ?thesis by simp
next
  case (Cons c r)
  then have "c = CHR ''.''"
    by (metis (mono_tags, lifting) hd_dropWhile list.sel(1) list.simps(3))
  then have d: "d = wholePart d @ CHR ''.'' # fractionPart d"
    using Cons takeWhile_dropWhile_id[of "\<lambda>c. c \<noteq> CHR ''.''" d]
    by (simp add: wholePart_def fractionPart_def)
  have "CHR ''.'' \<notin> set (wholePart d)"
    by (auto simp: wholePart_def dest: set_takeWhileD)
  then have "split CHR ''.'' (wholePart d @ CHR ''.'' # fractionPart d) = [wholePart d, fractionPart d]"
    using digits_no_dot[OF assms] by (simp add: split_one_sep split_no_sep)
  then show ?thesis using d by simp
qed

lemma baseUnitsToAmount_digits:
  assumes "w \<noteq> []" "list_all isDigit w" "list_all isDigit fz" "length fz = TOKEN_DECIMALS tok"
  shows "baseUnitsToAmount (int (decimalValue (w @ fz))) tok =
           stripTrailingZeros (withoutLeadingZeros w @ ''.'' @ fz)"
proof -
  let ?p = "TOKEN_DECIMALS tok"
  have p: "0 < ?p" by (cases tok) simp_all
  have fz: "fz \<noteq> []" using assms(4) p by auto
  have "bigintToString (int (decimalValue (w @ fz))) = withoutLeadingZeros (w @ fz)"
    using assms(2,3) by (simp add: bigintToString_def natToString_decimalValue)
  then have str: "padStart (bigintToString (int (decimalValue (w @ fz)))) (?p + 1) CHR ''0'' =
               withoutLeadingZeros w @ fz"
    using padded_digits[OF assms(1,4) p] by simp
  have ne: "withoutLeadingZeros w \<noteq> []"
    by (simp add: withoutLeadingZeros_def Let_def)
  have sl_front: "slice (withoutLeadingZeros w @ fz) 0 (Some (- int ?p)) = withoutLeadingZeros w"
    using slice_front[OF fz, of "withoutLeadingZeros w"] assms(4) by simp
  have sl_back: "slice (withoutLeadingZeros w @ fz) (- int ?p) None = fz"
    using slice_back[OF fz, of "withoutLeadingZeros w"] assms(4) by simp
  show ?thesis
    unfolding baseUnitsToAmount_def Let_def str sl_front sl_back using ne by simp
qed

text \<open>
  Claim C7. For every valid decimal string \<open>d\<close> within the asset's precision,
  \<open>amountToBaseUnits\<close> succeeds and \<open>baseUnitsToAmount\<close> of its result is the
  canonical form of \<open>d\<close>.
\<close>

theorem amount_codec_round_trip:
  assumes "validDecimal d (TOKEN_DECIMALS tok)"
  shows "\<exists>n. amountToBaseUnits d tok = Inr n \<and> baseUnitsToAmount n tok = canonical d"
proof -
  let ?p = "TOKEN_DECIMALS tok" and ?w = "wholePart d" and ?f = "fractionPart d"
  let ?fz = "take ?p (padEnd ?f ?p CHR ''0'')"
  have p: "0 < ?p" by (cases tok) simp_all
  have w: "?w \<noteq> []" "list_all isDigit ?w" "?w = ''0'' \<or> \<not> isZero (hd ?w)"
    and f: "list_all isDigit ?f" "length ?f \<le> ?p"
    using assms by (simp_all add: validDecimal_def)
  have fz_eq: "?fz = padEnd ?f ?p CHR ''0''" using f(2) by (simp add: padEnd_def)
  have fz: "list_all isDigit ?fz" "length ?fz = ?p" "?fz \<noteq> []"
    using fraction_digits[OF f(1)] p by (auto simp: padEnd_def)
  have "amountToBaseUnits d tok = Inr (int (decimalValue ?w * 10 ^ ?p + decimalValue ?fz))"
    using decimal_parts[OF f(1)] amountToBaseUnits_parts[OF w(2) f(1), of d "[]" tok] by auto
  then have enc: "amountToBaseUnits d tok = Inr (int (decimalValue (?w @ ?fz)))"
    by (simp only: decimalValue_append fz(2))
  have "baseUnitsToAmount (int (decimalValue (?w @ ?fz))) tok =
          stripTrailingZeros (?w @ ''.'' @ ?fz)"
    using baseUnitsToAmount_digits[OF w(1,2) fz(1,2)] withoutLeadingZeros_valid[OF w(1,3)] by simp
  also have "\<dots> = (if withoutTrailingZeros ?fz = [] then ?w
                   else ?w @ ''.'' @ withoutTrailingZeros ?fz)"
    using digits_no_dot[OF w(2)] digits_no_dot[OF fz(1)] fz(3)
    by (rule stripTrailingZeros_decimal)
  also have "\<dots> = canonical d"
    unfolding fz_eq withoutTrailingZeros_padEnd by (simp add: canonical_def Let_def)
  finally show ?thesis using enc by blast
qed

theorem amount_codec_round_trip_witness:
  "validDecimal ''1.50'' (TOKEN_DECIMALS SOL) \<and>
   (\<exists>n. amountToBaseUnits ''1.50'' SOL = Inr n \<and> baseUnitsToAmount n SOL = ''1.5'')"
proof -
  have v: "validDecimal ''1.50'' (TOKEN_DECIMALS SOL)"
    by (simp add: validDecimal_def wholePart_def fractionPart_def isDigit_def isZero_def)
  have c: "canonical ''1.50'' = ''1.5''"
    by (simp add: canonical_def wholePart_def fractionPart_def withoutTrailingZeros_def isZero_def)
  show ?thesis
    using v amount_codec_round_trip[OF v] unfolding c by simp
qed

section \<open>Properties of the payment verifier\<close>

lemmas verifier_defs =
  verifyPaymentTransaction_def verifyPaymentBody_def verifySOL_def verifyToken_def
  finalityPassed_def metaErr_def PublicKey_new_def getAccountKeys_def balanceAt_def
  tokenBalancesOf_def ownedBy_def preTokenAmount_def

lemmas example_defs =
  exampleWeb3_def base58Alphabet_def decodesTo32Bytes_def usdcAccounts_def usdcAccountOf_def
  ledgerWith_def solRequirements_def usdcRequirements_def vaultRequirements_def
  solTransfer_def solTransferV0_def solTransferBeside_def usdcTransfer_def tokenTransferOfMint_def
  merchant_def payer_def stranger_def vault_def systemProgram_def tokenProgram_def

lemmas bigint_defs =
  BigInt_def trim_def isWhiteSpace_def parseDigits_def radixDigit_def

lemma findIndex_None: "findIndex P xs = None \<longleftrightarrow> \<not> list_ex P xs"
  by (induction xs) auto

lemma findIndex_first:
  "i < length xs \<Longrightarrow> P (xs ! i) \<Longrightarrow> \<not> list_ex P (take i xs) \<Longrightarrow> findIndex P xs = Some i"
proof (induction xs arbitrary: i)
  case Nil
  then show ?case by simp
next
  case (Cons x xs)
  show ?case
  proof (cases i)
    case 0
    then show ?thesis using Cons.prems by simp
  next
    case (Suc j)
    then have "findIndex P xs = Some j" "\<not> P x"
      using Cons.prems Cons.IH[of j] by simp_all
    then show ?thesis using Suc by simp
  qed
qed

lemma verify_iff_body:
  "verifyPaymentTransaction lib conn txsig req c \<longleftrightarrow> verifyPaymentBody lib conn txsig req c = Inr True"
  by (simp add: verifyPaymentTransaction_def split: sum.splits)

text \<open>
  The amount rule of the native path. For a transaction without address table lookups
  that reaches the amount check, with the recipient first listed at position \<open>i\<close> of the
  static account keys, the verdict is exactly whether the post-balance at \<open>i\<close> minus
  the pre-balance at \<open>i\<close>, as integers, is at least the required amount: nothing is
  subtracted as a tolerance.
\<close>

lemma verify_native_amount_rule:
  assumes "getTransaction conn txsig c = Inr (Some tx)"
    and "\<not> metaErr tx"
    and "finalityPassed conn tx c = Inr True"
    and "publicKeyError lib (recipient req) = None"
    and "BigInt (amount req) = Inr expected"
    and "token req = SOL"
    and "addressTableLookups tx = 0"
    and "meta tx = Some m"
    and "i < length (staticAccountKeys tx)"
    and "staticAccountKeys tx ! i = recipient req"
    and "recipient req \<notin> set (take i (staticAccountKeys tx))"
    and "i < length (preBalances m)"
    and "i < length (postBalances m)"
  shows "verifyPaymentTransaction lib conn txsig req c \<longleftrightarrow>
           expected \<le> int (postBalances m ! i) - int (preBalances m ! i)"
proof -
  have "findIndex (\<lambda>key. key = recipient req) (staticAccountKeys tx) = Some i"
    using assms(9-11) by (intro findIndex_first) (simp_all add: list_ex_iff)
  then show ?thesis
    using assms(1-8,12,13)
    by (simp add: verifyPaymentTransaction_def verifyPaymentBody_def verifySOL_def
          PublicKey_new_def getAccountKeys_def balanceAt_def Let_def not_less)
qed

lemma verify_native_examples:
  "verifyPaymentTransaction exampleWeb3 (ledgerWith (solTransfer merchant 1000000 100) 200) ''paid''
     solRequirements Confirmed"
  "verifyPaymentTransaction exampleWeb3 (ledgerWith (solTransfer merchant 1000001 100) 200) ''paid''
     solRequirements Confirmed"
  "\<not> verifyPaymentTransaction exampleWeb3 (ledgerWith (solTransfer merchant 999999 100) 200) ''paid''
     solRequirements Confirmed"
  "verifyPaymentTransaction exampleWeb3 (ledgerWith (solTransferBeside merchant stranger 1000000) 200)
     ''paid'' solRequirements Confirmed"
  "\<not> verifyPaymentTransaction exampleWeb3 (ledgerWith (solTransferBeside stranger merchant 1000000) 200)
     ''paid'' solRequirements Confirmed"
  by (simp_all add: verifier_defs example_defs bigint_defs)

text \<open>
  Claim C1 names a defect of the code. The verifier asks the node for version-0
  transactions (\<^verbatim>\<open>maxSupportedTransactionVersion: 0\<close>), but reads the account keys with
  \<^verbatim>\<open>getAccountKeys()\<close>, which throws as soon as the message has an address table
  lookup; the \<^verbatim>\<open>catch\<close> turns that into \<open>false\<close>. So a transfer that lists the
  recipient among its static keys and raises its balance by exactly the required amount
  is rejected when it is sent as a version-0 transaction with a lookup table, and
  accepted when the same transfer is sent without one.
\<close>

theorem verify_rejects_paid_versioned_transfer:
  "staticAccountKeys (solTransferV0 merchant 1000000 100) ! 1 = recipient solRequirements \<and>
   map_option (\<lambda>m. int (postBalances m ! 1) - int (preBalances m ! 1))
     (meta (solTransferV0 merchant 1000000 100)) = Some 1000000 \<and>
   BigInt (amount solRequirements) = Inr 1000000 \<and>
   \<not> verifyPaymentTransaction exampleWeb3 (ledgerWith (solTransferV0 merchant 1000000 100) 200) ''paid''
       solRequirements Confirmed \<and>
   verifyPaymentTransaction exampleWeb3 (ledgerWith (solTransfer merchant 1000000 100) 200) ''paid''
       solRequirements Confirmed"
  by (simp add: verifier_defs example_defs bigint_defs)

theorem verify_rejects_paid_versioned_transfer_witness:
  "\<not> verifyPaymentTransaction exampleWeb3 (ledgerWith (solTransferV0 merchant 1000000 100) 200) ''paid''
       solRequirements Confirmed"
  using verify_rejects_paid_versioned_transfer by blast

text \<open>
  Claim C5. For a signature the ledger does not hold at the commitment level asked for,
  the body of the verifier returns \<open>false\<close> itself (no exception is raised on the way)
  and the verifier's verdict is \<open>false\<close>. The verifier is a total function into
  \<^typ>\<open>bool\<close>: every exception of its body is caught and turned into \<open>false\<close>.
\<close>

theorem verify_rejects_absent:
  assumes "getTransaction conn txsig c = Inr None"
  shows "verifyPaymentBody lib conn txsig req c = Inr False \<and>
         \<not> verifyPaymentTransaction lib conn txsig req c"
  using assms by (simp add: verifyPaymentTransaction_def verifyPaymentBody_def)

theorem verify_rejects_absent_witness:
  "getTransaction (ledgerWith (solTransfer merchant 1000000 100) 200) ''unseen'' Confirmed = Inr None \<and>
   verifyPaymentBody exampleWeb3 (ledgerWith (solTransfer merchant 1000000 100) 200) ''unseen''
     solRequirements Confirmed = Inr False \<and>
   \<not> verifyPaymentTransaction exampleWeb3 (ledgerWith (solTransfer merchant 1000000 100) 200) ''unseen''
     solRequirements Confirmed"
proof -
  have h: "getTransaction (ledgerWith (solTransfer merchant 1000000 100) 200) ''unseen'' Confirmed = Inr None"
    by (simp add: ledgerWith_def)
  show ?thesis
    using h verify_rejects_absent[OF h, of exampleWeb3 solRequirements] by simp
qed

text \<open>
  Claim C2 fails on the token path, which never looks at the accounts of the message: a
  token transfer whose message names the payer, the two token accounts and the token
  program, but not the recipient's wallet address, is accepted.
\<close>

theorem recipient_absent_token_counterexample:
  "recipient usdcRequirements \<notin> set (staticAccountKeys (usdcTransfer merchant ''100'' ''500100'')) \<and>
   getTransaction (ledgerWith (usdcTransfer merchant ''100'' ''500100'') 500) ''paid'' Confirmed =
     Inr (Some (usdcTransfer merchant ''100'' ''500100'')) \<and>
   verifyPaymentTransaction exampleWeb3 (ledgerWith (usdcTransfer merchant ''100'' ''500100'') 500)
     ''paid'' usdcRequirements Confirmed"
  by (simp add: verifier_defs example_defs bigint_defs)

lemma body_accepts:
  assumes "verifyPaymentBody lib conn txsig req c = Inr True"
    and "getTransaction conn txsig c = Inr (Some tx)"
  shows "\<exists>expected. BigInt (amount req) = Inr expected \<and>
           (if token req = SOL then verifySOL tx (recipient req) expected
            else verifyToken lib tx req (recipient req) expected) = Inr True"
proof -
  have tok: "token req = SOL \<or> token req = USDC \<or> token req = USDT"
    by (cases "token req") simp_all
  show ?thesis
    using assms tok
    unfolding verifyPaymentBody_def PublicKey_new_def
    by (simp split: sum.splits option.splits bool.splits if_splits)
qed

lemma verifySOL_absent:
  "rcp \<notin> set (staticAccountKeys tx) \<Longrightarrow> verifySOL tx rcp e \<noteq> Inr True"
proof -
  assume "rcp \<notin> set (staticAccountKeys tx)"
  then have "findIndex (\<lambda>key. key = rcp) (staticAccountKeys tx) = None"
    by (simp add: findIndex_None list_ex_iff)
  then show ?thesis
    by (simp add: verifySOL_def getAccountKeys_def)
qed

lemma verifyToken_absent:
  assumes "find (ownedBy rcp (TOKEN_MINTS (network req) (token req)))
             (tokenBalancesOf tx postTokenBalances) = None"
  shows "verifyToken lib tx req rcp e \<noteq> Inr True"
  using assms
  unfolding verifyToken_def PublicKey_new_def Let_def
  by (simp split: sum.splits option.splits)

text \<open>
  Claim C2, as the code has it. On the native path a recipient that is not among the
  static account keys of the message is rejected; on the token path the verifier rejects
  when no post-transaction token balance is owned by the recipient for the asset's mint.
\<close>

theorem verify_recipient_strict:
  assumes "getTransaction conn txsig c = Inr (Some tx)"
  shows "(token req = SOL \<and> recipient req \<notin> set (staticAccountKeys tx)
            \<longrightarrow> \<not> verifyPaymentTransaction lib conn txsig req c) \<and>
         (token req \<noteq> SOL \<and>
          find (ownedBy (recipient req) (TOKEN_MINTS (network req) (token req)))
            (tokenBalancesOf tx postTokenBalances) = None
            \<longrightarrow> \<not> verifyPaymentTransaction lib conn txsig req c)"
  using body_accepts[OF _ assms, of lib req] verifySOL_absent[of "recipient req" tx]
    verifyToken_absent[of "recipient req" req tx lib]
  unfolding verify_iff_body by (metis (full_types))

theorem verify_recipient_strict_witness:
  "\<not> verifyPaymentTransaction exampleWeb3 (ledgerWith (solTransfer stranger 1000000 100) 200) ''paid''
       solRequirements Confirmed \<and>
   \<not> verifyPaymentTransaction exampleWeb3 (ledgerWith (usdcTransfer stranger ''100'' ''500100'') 500)
       ''paid'' usdcRequirements Confirmed"
proof -
  have a: "getTransaction (ledgerWith (solTransfer stranger 1000000 100) 200) ''paid'' Confirmed =
             Inr (Some (solTransfer stranger 1000000 100))"
    by (simp add: ledgerWith_def)
  have b: "getTransaction (ledgerWith (usdcTransfer stranger ''100'' ''500100'') 500) ''paid'' Confirmed =
             Inr (Some (usdcTransfer stranger ''100'' ''500100''))"
    by (simp add: ledgerWith_def)
  show ?thesis
    using verify_recipient_strict[OF a, of solRequirements exampleWeb3]
          verify_recipient_strict[OF b, of usdcRequirements exampleWeb3]
    by (simp add: solRequirements_def usdcRequirements_def solTransfer_def usdcTransfer_def
          merchant_def payer_def stranger_def systemProgram_def tokenBalancesOf_def ownedBy_def)
qed

text \<open>
  The amount rule of the token path. For a recipient whose associated token address the
  library derives and a transaction that reaches the amount check, the verifier takes
  the first post-transaction and the first pre-transaction token balance whose owner is
  the recipient and whose mint is the asset's mint. Without such a post-balance it
  rejects; with one, it accepts if and only if post minus pre is at least the required
  amount, and a missing pre-balance counts as zero.
\<close>

lemma verify_token_amount_rule:
  assumes "getTransaction conn txsig c = Inr (Some tx)"
    and "\<not> metaErr tx"
    and "finalityPassed conn tx c = Inr True"
    and "publicKeyError lib (recipient req) = None"
    and "BigInt (amount req) = Inr expected"
    and "token req = USDC \<or> token req = USDT"
    and "publicKeyError lib (TOKEN_MINTS (network req) (token req)) = None"
    and "getAssociatedTokenAddress lib (TOKEN_MINTS (network req) (token req)) (recipient req) = Inr ata"
    and "postBalance =
           find (\<lambda>b. owner b = Some (recipient req) \<and> mint b = TOKEN_MINTS (network req) (token req))
             (case meta tx of None \<Rightarrow> []
              | Some m \<Rightarrow> (case postTokenBalances m of None \<Rightarrow> [] | Some bs \<Rightarrow> bs))"
    and "preBalance =
           find (\<lambda>b. owner b = Some (recipient req) \<and> mint b = TOKEN_MINTS (network req) (token req))
             (case meta tx of None \<Rightarrow> []
              | Some m \<Rightarrow> (case preTokenBalances m of None \<Rightarrow> [] | Some bs \<Rightarrow> bs))"
  shows "(postBalance = None \<longrightarrow> \<not> verifyPaymentTransaction lib conn txsig req c) \<and>
         (postBalance = Some pb \<and> BigInt (uiTokenAmount_amount pb) = Inr post \<and> preBalance = None
            \<longrightarrow> (verifyPaymentTransaction lib conn txsig req c \<longleftrightarrow> expected \<le> post)) \<and>
         (postBalance = Some pb \<and> BigInt (uiTokenAmount_amount pb) = Inr post \<and>
          preBalance = Some qb \<and> BigInt (uiTokenAmount_amount qb) = Inr pre
            \<longrightarrow> (verifyPaymentTransaction lib conn txsig req c \<longleftrightarrow> expected \<le> post - pre))"
proof -
  let ?P = "\<lambda>b. owner b = Some (recipient req) \<and> mint b = TOKEN_MINTS (network req) (token req)"
  have own: "ownedBy (recipient req) (TOKEN_MINTS (network req) (token req)) = ?P"
    by (rule ext) (simp add: ownedBy_def)
  have tok: "token req \<noteq> SOL" using assms(6) by auto
  have body: "verifyPaymentBody lib conn txsig req c = verifyToken lib tx req (recipient req) expected"
    using assms(1-6) tok by (simp add: verifyPaymentBody_def PublicKey_new_def)
  have empty: "BigInt [] = Inr 0"
    by (simp add: BigInt_def trim_def)
  have pre: "preTokenAmount (Some qb) = BigInt (uiTokenAmount_amount qb)"
    using empty by (simp add: preTokenAmount_def)
  have "verifyToken lib tx req (recipient req) expected =
          (case find ?P (tokenBalancesOf tx postTokenBalances) of None \<Rightarrow> Inr False
           | Some pb \<Rightarrow> (case BigInt (uiTokenAmount_amount pb) of Inl e \<Rightarrow> Inl e
              | Inr post \<Rightarrow> (case preTokenAmount (find ?P (tokenBalancesOf tx preTokenBalances)) of
                   Inl e \<Rightarrow> Inl e
                 | Inr pre \<Rightarrow> if post - pre < expected then Inr False else Inr True)))"
    using assms(7,8) by (simp add: verifyToken_def PublicKey_new_def Let_def own)
  then show ?thesis
    unfolding verify_iff_body body using assms(9,10) pre
    by (auto simp: preTokenAmount_def tokenBalancesOf_def)
qed

lemma verify_token_examples:
  "verifyPaymentTransaction exampleWeb3 (ledgerWith (usdcTransfer merchant ''100'' ''500100'') 500)
     ''paid'' usdcRequirements Confirmed"
  "\<not> verifyPaymentTransaction exampleWeb3 (ledgerWith (usdcTransfer merchant ''100'' ''500099'') 500)
     ''paid'' usdcRequirements Confirmed"
  "\<not> verifyPaymentTransaction exampleWeb3 (ledgerWith (usdcTransfer stranger ''100'' ''500100'') 500)
     ''paid'' usdcRequirements Confirmed"
  "\<not> verifyPaymentTransaction exampleWeb3
       (ledgerWith (tokenTransferOfMint (TOKEN_MINTS Devnet USDT) merchant ''100'' ''500100'') 500)
     ''paid'' usdcRequirements Confirmed"
  "verifyPaymentTransaction exampleWeb3
       (ledgerWith (tokenTransferOfMint (TOKEN_MINTS Devnet USDC) merchant ''100'' ''500100'') 500)
     ''paid'' usdcRequirements Confirmed"
  by (simp_all add: verifier_defs example_defs bigint_defs)

text \<open>
  Claim C3 names a defect of the code. Before it looks at the token balances, the
  verifier derives the recipient's associated token address with
  \<^verbatim>\<open>allowOwnerOffCurve = false\<close> and never reads the result; for a recipient that is
  not a point of the curve (a program-derived address) the derivation throws and the
  \<^verbatim>\<open>catch\<close> turns that into \<open>false\<close>. So a transfer with a matching post-balance entry
  that rises by the required amount is rejected for such a recipient, and accepted for
  a recipient on the curve.
\<close>

theorem verify_rejects_paid_off_curve_recipient:
  "find (\<lambda>b. owner b = Some (recipient vaultRequirements) \<and>
              mint b = TOKEN_MINTS (network vaultRequirements) (token vaultRequirements))
     (tokenBalancesOf (usdcTransfer vault ''100'' ''500100'') postTokenBalances) =
     Some \<lparr> owner = Some vault, mint = TOKEN_MINTS Devnet USDC, uiTokenAmount_amount = ''500100'' \<rparr> \<and>
   find (\<lambda>b. owner b = Some (recipient vaultRequirements) \<and>
              mint b = TOKEN_MINTS (network vaultRequirements) (token vaultRequirements))
     (tokenBalancesOf (usdcTransfer vault ''100'' ''500100'') preTokenBalances) =
     Some \<lparr> owner = Some vault, mint = TOKEN_MINTS Devnet USDC, uiTokenAmount_amount = ''100'' \<rparr> \<and>
   BigInt ''500100'' = Inr 500100 \<and> BigInt ''100'' = Inr 100 \<and>
   BigInt (amount vaultRequirements) = Inr 500000 \<and>
   publicKeyError exampleWeb3 (recipient vaultRequirements) = None \<and>
   \<not> verifyPaymentTransaction exampleWeb3 (ledgerWith (usdcTransfer vault ''100'' ''500100'') 500)
       ''paid'' vaultRequirements Confirmed \<and>
   verifyPaymentTransaction exampleWeb3 (ledgerWith (usdcTransfer merchant ''100'' ''500100'') 500)
       ''paid'' usdcRequirements Confirmed"
  by (simp add: verifier_defs example_defs bigint_defs)

theorem verify_rejects_paid_off_curve_recipient_witness:
  "\<not> verifyPaymentTransaction exampleWeb3 (ledgerWith (usdcTransfer vault ''100'' ''500100'') 500)
       ''paid'' vaultRequirements Confirmed"
  using verify_rejects_paid_off_curve_recipient by blast

text \<open>
  Claim C4. At finalized commitment a transaction that is fewer than 32 slots behind
  the head is rejected. At confirmed commitment the depth is not looked at: the same
  transaction gets the verdict that a finalized verification gives once the transaction
  is 32 slots deep, so it is accepted when it is otherwise valid. The slot of the
  transaction is taken to be other than zero: slot zero is the genesis slot, which holds
  no transaction.
\<close>

theorem finality_gate:
  assumes "getTransaction conn txsig Finalized = Inr (Some tx)"
    and "getTransaction conn txsig Confirmed = Inr (Some tx)"
    and "getSlot conn Finalized = Inr head"
    and "slot tx \<noteq> 0"
    and "int head - int (slot tx) < 32"
  shows "\<not> verifyPaymentTransaction lib conn txsig req Finalized \<and>
         (verifyPaymentTransaction lib conn txsig req Confirmed \<longleftrightarrow>
          verifyPaymentTransaction lib (conn\<lparr>getSlot := \<lambda>commitment. Inr (slot tx + 32)\<rparr>) txsig req Finalized)"
  using assms
  by (simp add: verifyPaymentTransaction_def verifyPaymentBody_def finalityPassed_def)

theorem finality_gate_witness:
  "\<not> verifyPaymentTransaction exampleWeb3 (ledgerWith (solTransfer merchant 1000000 100) 110) ''paid''
       solRequirements Finalized \<and>
   verifyPaymentTransaction exampleWeb3 (ledgerWith (solTransfer merchant 1000000 100) 110) ''paid''
       solRequirements Confirmed"
proof -
  let ?conn = "ledgerWith (solTransfer merchant 1000000 100) 110"
  have h: "getTransaction ?conn ''paid'' Finalized = Inr (Some (solTransfer merchant 1000000 100))"
      "getTransaction ?conn ''paid'' Confirmed = Inr (Some (solTransfer merchant 1000000 100))"
      "getSlot ?conn Finalized = Inr 110"
      "slot (solTransfer merchant 1000000 100) \<noteq> 0"
      "int 110 - int (slot (solTransfer merchant 1000000 100)) < 32"
    by (simp_all add: ledgerWith_def solTransfer_def)
  have deep: "verifyPaymentTransaction exampleWeb3
                (?conn\<lparr>getSlot := \<lambda>commitment. Inr (slot (solTransfer merchant 1000000 100) + 32)\<rparr>)
                ''paid'' solRequirements Finalized"
    by (simp add: verifier_defs example_defs bigint_defs)
  show ?thesis
    using finality_gate[OF h, of exampleWeb3 solRequirements] deep by simp
qed

section \<open>Properties of the client\<close>

lemmas io_defs = io_return_def io_throw_def io_lift_def io_call_def io_bind_def io_catch_def

lemmas client_defs =
  X402Client_fetch_def parsePaymentRequirements_def executePayment_def
  createPaymentTransaction_def createTokenPaymentTransaction_def createSOLPaymentTransaction_def
  signAndSendTransaction_def confirmTransaction_def retryWithPayment_def retryInit_def
  retryHeaders_def PublicKey_new_def

lemmas schema_defs =
  PaymentRequirementsSchema_parse_def parseEnum_def requiredString_def optionalString_def
  optionalNumber_def

lemmas headers_defs =
  Headers_new_def Headers_append_def Headers_set_def Headers_get_def lowerName_def lowerChar_def
  normalizeValue_def isHttpSpace_def

lemmas world_defs =
  exampleWorld_def exampleConfig_def exampleOptions_def postRequest_def challenge_def
  exampleProof_def exampleWeb3_def payer_def merchant_def

text \<open>
  Claim C9, as the code has it. With automatic payment not switched off, a 402 response
  whose body parses as payment requirements, and no signer on the request or on the
  client, \<open>fetch\<close> throws a \<open>PaymentRequiredError\<close> that carries the parsed requirements.
  The trace gains the original request and nothing else: no transaction is built, the
  RPC node is not asked, nothing is submitted.
\<close>

theorem fetch_without_signer:
  assumes "httpFetch w t url (fetchOptions options) = Inr response"
    and "status response = 402"
    and "autoPayment options \<noteq> Some False"
    and "options_signer options = None"
    and "config_signer cfg = None"
    and "jsonBody response = Inr b"
    and "PaymentRequirementsSchema_parse b = Some requirements"
  shows "X402Client_fetch cfg lib w url options t =
           (Inl (PaymentRequiredError requirements ''Payment required but no signer provided''),
            t @ [HttpFetch url (fetchOptions options)])"
proof -
  have ap: "(case autoPayment options of None \<Rightarrow> True | Some b \<Rightarrow> b)"
    using assms(3) by (cases "autoPayment options") auto
  show ?thesis
    using assms(1,2,4-7) ap
    by (simp add: X402Client_fetch_def parsePaymentRequirements_def io_defs)
qed

theorem fetch_without_signer_witness:
  "X402Client_fetch (exampleConfig None) exampleWeb3 (exampleWorld []) ''https://api.example.com/data''
     (exampleOptions None) [] =
   (Inl (PaymentRequiredError
           \<lparr> scheme = Exact, network = Devnet, amount = ''500000'', token = USDC,
             recipient = merchant, memo = None, deadline = None, requestId = None \<rparr>
           ''Payment required but no signer provided''),
    [HttpFetch ''https://api.example.com/data'' postRequest])"
proof -
  have p: "PaymentRequirementsSchema_parse challenge =
             Some \<lparr> scheme = Exact, network = Devnet, amount = ''500000'', token = USDC,
                    recipient = merchant, memo = None, deadline = None, requestId = None \<rparr>"
    by (simp add: schema_defs challenge_def merchant_def)
  have f: "httpFetch (exampleWorld []) [] ''https://api.example.com/data''
             (fetchOptions (exampleOptions None)) = Inr \<lparr> status = 402, jsonBody = Inr challenge \<rparr>"
    by (simp add: exampleWorld_def exampleOptions_def postRequest_def headers_defs)
  show ?thesis
    using fetch_without_signer[OF f _ _ _ _ _ p, of "exampleConfig None" exampleWeb3]
    by (simp add: exampleOptions_def exampleConfig_def)
qed

text \<open>
  Claim C9 fails when the caller passes \<^verbatim>\<open>autoPayment: false\<close>: the 402 response is
  handed back as the result and no error is raised, signer or not.
\<close>

theorem fetch_without_signer_autopayment_off_counterexample:
  "options_signer (exampleOptions (Some False)) = None \<and>
   config_signer (exampleConfig None) = None \<and>
   X402Client_fetch (exampleConfig None) exampleWeb3 (exampleWorld []) ''https://api.example.com/data''
     (exampleOptions (Some False)) [] =
   (Inr \<lparr> status = 402, jsonBody = Inr challenge \<rparr>,
    [HttpFetch ''https://api.example.com/data'' postRequest])"
  by (simp add: X402Client_fetch_def io_defs exampleWorld_def exampleOptions_def exampleConfig_def
        postRequest_def headers_defs)

text \<open>
  Claim C6. In a token payment whose inputs parse, if the RPC node reports no account at
  the payer's associated token address, the builder throws: the error is a
  \<open>TransactionFailedError\<close> whose message says that the sender has no associated token
  account for the token and names the address at which to create one, and
  \<open>executePayment\<close> fails with that error wrapped. Up to the failure the only external
  call is that one account lookup: no transaction is produced, so no instruction creates
  the payer's account, and nothing is signed or submitted.
\<close>

theorem token_build_missing_source_account:
  assumes "token requirements \<noteq> SOL"
    and "publicKeyError lib (recipient requirements) = None"
    and "publicKeyError lib (TOKEN_MINTS (network requirements) (token requirements)) = None"
    and "BigInt (amount requirements) = Inr amt"
    and "getAssociatedTokenAddress lib (TOKEN_MINTS (network requirements) (token requirements))
           (getPublicKey signer) = Inr senderATA"
    and "getAssociatedTokenAddress lib (TOKEN_MINTS (network requirements) (token requirements))
           (recipient requirements) = Inr recipientATA"
    and "getAccountInfo w t senderATA = Inr False"
  shows "createTokenPaymentTransaction lib w (getPublicKey signer) requirements t =
           (Inl (TransactionFailedError
                   (''Sender does not have an associated token account for '' @
                    tokenName (token requirements) @
                    ''. Please create one first at address: '' @ senderATA) None),
            t @ [RpcGetAccountInfo senderATA]) \<and>
         executePayment cfg lib w requirements signer t =
           (Inl (TransactionFailedError
                   (''Payment execution failed: Sender does not have an associated token account for '' @
                    tokenName (token requirements) @
                    ''. Please create one first at address: '' @ senderATA)
                   (Some (TransactionFailedError
                            (''Sender does not have an associated token account for '' @
                             tokenName (token requirements) @
                             ''. Please create one first at address: '' @ senderATA) None))),
            t @ [RpcGetAccountInfo senderATA])"
proof -
  have build: "createTokenPaymentTransaction lib w (getPublicKey signer) requirements t =
           (Inl (TransactionFailedError
                   (''Sender does not have an associated token account for '' @
                    tokenName (token requirements) @
                    ''. Please create one first at address: '' @ senderATA) None),
            t @ [RpcGetAccountInfo senderATA])"
    using assms(2-7) by (simp add: createTokenPaymentTransaction_def PublicKey_new_def io_defs)
  then show ?thesis
    using assms(1) by (simp add: executePayment_def createPaymentTransaction_def io_defs)
qed

theorem token_build_missing_source_account_witness:
  "executePayment (exampleConfig None) exampleWeb3 (exampleWorld []) usdcRequirements
     (Keypair ''AKnL4NNf3DGWZJS6cPknBuEGnVsV4A4m5tgebLHaRSZ9'') [] =
   (Inl (TransactionFailedError
           ''Payment execution failed: Sender does not have an associated token account for USDC. Please create one first at address: H1AviagU5Y17z77v1F9qZPJ9kCbCsL4ewiZABNfGYoRs''
           (Some (TransactionFailedError
                    ''Sender does not have an associated token account for USDC. Please create one first at address: H1AviagU5Y17z77v1F9qZPJ9kCbCsL4ewiZABNfGYoRs''
                    None))),
    [RpcGetAccountInfo ''H1AviagU5Y17z77v1F9qZPJ9kCbCsL4ewiZABNfGYoRs''])"
proof -
  have amt: "BigInt (amount usdcRequirements) = Inr 500000"
    by (simp add: usdcRequirements_def solRequirements_def bigint_defs)
  have keys: "publicKeyError exampleWeb3 (recipient usdcRequirements) = None"
      "publicKeyError exampleWeb3 (TOKEN_MINTS (network usdcRequirements) (token usdcRequirements)) = None"
    by (simp_all add: example_defs)
  have atas: "getAssociatedTokenAddress exampleWeb3
                 (TOKEN_MINTS (network usdcRequirements) (token usdcRequirements))
                 (getPublicKey (Keypair ''AKnL4NNf3DGWZJS6cPknBuEGnVsV4A4m5tgebLHaRSZ9'')) =
               Inr ''H1AviagU5Y17z77v1F9qZPJ9kCbCsL4ewiZABNfGYoRs''"
      "getAssociatedTokenAddress exampleWeb3
                 (TOKEN_MINTS (network usdcRequirements) (token usdcRequirements))
                 (recipient usdcRequirements) = Inr ''HwpBSwuyVKJi7d9kqqNexc54MS9i4BEDKDVDLeUVjZm8''"
    by (simp_all add: example_defs)
  have missing: "getAccountInfo (exampleWorld []) [] ''H1AviagU5Y17z77v1F9qZPJ9kCbCsL4ewiZABNfGYoRs'' = Inr False"
    by (simp add: exampleWorld_def)
  have tok: "token usdcRequirements \<noteq> SOL"
    by (simp add: usdcRequirements_def solRequirements_def)
  show ?thesis
    using token_build_missing_source_account[OF tok keys amt atas missing, of "exampleConfig None"]
    by (simp add: usdcRequirements_def solRequirements_def)
qed

text \<open>
  With the payer's token account in place the same payment goes through: the builder
  looks up both token accounts and the blockhash, and the transaction is submitted.
\<close>

lemma token_build_with_source_account:
  "snd (executePayment (exampleConfig None) exampleWeb3
          (exampleWorld [''H1AviagU5Y17z77v1F9qZPJ9kCbCsL4ewiZABNfGYoRs'']) usdcRequirements
          (Keypair ''AKnL4NNf3DGWZJS6cPknBuEGnVsV4A4m5tgebLHaRSZ9'') []) =
     [RpcGetAccountInfo ''H1AviagU5Y17z77v1F9qZPJ9kCbCsL4ewiZABNfGYoRs'',
      RpcGetAccountInfo ''HwpBSwuyVKJi7d9kqqNexc54MS9i4BEDKDVDLeUVjZm8'',
      RpcGetLatestBlockhash, RpcSendRawTransaction ''signed-wire-bytes'',
      RpcConfirmTransaction ''paid'' Confirmed]"
  by (simp add: client_defs io_defs exampleWorld_def exampleConfig_def example_defs bigint_defs)

lemma replaceHeader_same:
  "map snd (filter (\<lambda>h. fst h = n) (replaceHeader n v hs)) = [v]"
proof (induction hs)
  case Nil
  then show ?case by simp
next
  case (Cons h hs)
  have "filter (\<lambda>h. fst h = n) (filter (\<lambda>h'. fst h' \<noteq> n) hs) = []"
    by (induction hs) auto
  then show ?case using Cons by simp
qed

lemma replaceHeader_other:
  "k \<noteq> n \<Longrightarrow> filter (\<lambda>h. fst h = k) (replaceHeader n v hs) = filter (\<lambda>h. fst h = k) hs"
proof (induction hs)
  case Nil
  then show ?case by simp
next
  case (Cons h hs)
  have "filter (\<lambda>h. fst h = k) (filter (\<lambda>h'. fst h' \<noteq> n) hs) = filter (\<lambda>h. fst h = k) hs"
    using Cons.prems by (induction hs) auto
  then show ?case using Cons by simp
qed

lemma Headers_get_set_same:
  "lowerName name = lowerName name' \<Longrightarrow>
     Headers_get (Headers_set hs name' v) name = Some (normalizeValue v)"
  by (simp add: Headers_get_def Headers_set_def replaceHeader_same)

lemma Headers_get_set_other:
  "lowerName name \<noteq> lowerName name' \<Longrightarrow>
     Headers_get (Headers_set hs name' v) name = Headers_get hs name"
  by (simp add: Headers_get_def Headers_set_def replaceHeader_other)

lemma normalizeValue_braces:
  "normalizeValue (CHR ''{'' # s @ ''}'') = CHR ''{'' # s @ ''}''"
  by (simp add: normalizeValue_def isHttpSpace_def)

lemma normalizeValue_proof: "normalizeValue (JSON_stringify_proof p) = JSON_stringify_proof p"
proof -
  obtain s where "JSON_stringify_proof p = CHR ''{'' # s @ ''}''"
    by (simp add: JSON_stringify_proof_def)
  then show ?thesis by (simp only: normalizeValue_braces)
qed

lemma lower_header_names:
  "lowerName ''X-Payment'' = ''x-payment''" "lowerName ''Content-Type'' = ''content-type''"
  by (simp_all add: lowerName_def lowerChar_def)

text \<open>
  Claim C10, as the code has it. The retry issues one request to the same URL; the
  request's method, body and further properties are those of the original options; its headers
  carry the serialised proof under \<^verbatim>\<open>X-Payment\<close> and \<^verbatim>\<open>application/json\<close> under
  \<^verbatim>\<open>Content-Type\<close>, and every header of another name is as in the original request.
\<close>

theorem retry_request_frame:
  "retryWithPayment w url options proof t =
     (httpFetch w t url (retryInit options proof), t @ [HttpFetch url (retryInit options proof)]) \<and>
   headers (retryInit options proof) = Some (retryHeaders options proof) \<and>
   httpMethod (retryInit options proof) = httpMethod options \<and>
   body (retryInit options proof) = body options \<and>
   others (retryInit options proof) = others options \<and>
   Headers_get (retryHeaders options proof) ''X-Payment'' = Some (JSON_stringify_proof proof) \<and>
   Headers_get (retryHeaders options proof) ''Content-Type'' = Some ''application/json'' \<and>
   (lowerName name \<noteq> ''x-payment'' \<and> lowerName name \<noteq> ''content-type'' \<longrightarrow>
      Headers_get (retryHeaders options proof) name = Headers_get (Headers_new (headers options)) name)"
proof -
  have ct: "normalizeValue ''application/json'' = ''application/json''"
    by (simp add: normalizeValue_def isHttpSpace_def)
  have xp: "Headers_get (retryHeaders options proof) ''X-Payment'' = Some (JSON_stringify_proof proof)"
    unfolding retryHeaders_def
    by (simp add: Headers_get_set_other Headers_get_set_same lower_header_names normalizeValue_proof)
  have cty: "Headers_get (retryHeaders options proof) ''Content-Type'' = Some ''application/json''"
    unfolding retryHeaders_def
    by (simp add: Headers_get_set_same ct)
  have rest: "Headers_get (retryHeaders options proof) name = Headers_get (Headers_new (headers options)) name"
    if "lowerName name \<noteq> ''x-payment''" "lowerName name \<noteq> ''content-type''"
    unfolding retryHeaders_def using that
    by (simp add: Headers_get_set_other lower_header_names)
  show ?thesis
    using xp cty rest by (simp add: retryWithPayment_def retryInit_def io_call_def)
qed

theorem retry_request_frame_witness:
  "httpMethod (retryInit postRequest exampleProof) = Some ''POST'' \<and>
   body (retryInit postRequest exampleProof) = Some ''hello'' \<and>
   others (retryInit postRequest exampleProof) = [(''credentials'', ''include'')] \<and>
   Headers_get (retryHeaders postRequest exampleProof) ''X-Payment'' =
     Some (JSON_stringify_proof exampleProof) \<and>
   Headers_get (retryHeaders postRequest exampleProof) ''Authorization'' = Some ''Bearer abc''"
proof -
  have n: "lowerName ''Authorization'' \<noteq> ''x-payment''" "lowerName ''Authorization'' \<noteq> ''content-type''"
    by (simp_all add: lowerName_def lowerChar_def)
  have g: "Headers_get (Headers_new (headers postRequest)) ''Authorization'' = Some ''Bearer abc''"
    by (simp add: postRequest_def headers_defs)
  show ?thesis
    using retry_request_frame[of w url postRequest exampleProof t "''Authorization''"] n g
    by (simp add: postRequest_def)
qed

text \<open>
  Claim C10 fails for the content type: a request sent as \<^verbatim>\<open>text/plain\<close> is retried as
  \<^verbatim>\<open>application/json\<close>.
\<close>

theorem retry_overwrites_content_type_counterexample:
  "Headers_get (Headers_new (headers postRequest)) ''Content-Type'' = Some ''text/plain'' \<and>
   Headers_get (retryHeaders postRequest exampleProof) ''Content-Type'' = Some ''application/json''"
  by (simp add: retryHeaders_def postRequest_def headers_defs)

text \<open>
  The orchestrator's retry is that of \<open>retryWithPayment\<close>, for the URL and the options
  of the original request.
\<close>

lemma fetch_pays_then_retries:
  assumes "httpFetch w t url (fetchOptions options) = Inr response"
    and "status response = 402"
    and "autoPayment options \<noteq> Some False"
    and "(case options_signer options of Some s \<Rightarrow> Some s | None \<Rightarrow> config_signer cfg) = Some sg"
    and "jsonBody response = Inr b"
    and "PaymentRequirementsSchema_parse b = Some requirements"
    and "(case onPaymentRequired options of
            Some handler \<Rightarrow> io_call (PaymentHandlerCall requirements) (\<lambda>t. handler t requirements)
          | None \<Rightarrow> executePayment cfg lib w requirements sg)
           (t @ [HttpFetch url (fetchOptions options)]) = (Inr proof, t')"
  shows "X402Client_fetch cfg lib w url options t =
           retryWithPayment w url (fetchOptions options) proof t'"
proof -
  have ap: "(case autoPayment options of None \<Rightarrow> True | Some b \<Rightarrow> b)"
    using assms(3) by (cases "autoPayment options") auto
  show ?thesis
    using assms(1,2,4-7) ap
    by (simp add: X402Client_fetch_def parsePaymentRequirements_def io_defs)
qed

end
